theory Spec2Isabelle
  imports Complex_Main
begin

section \<open>Common data and data-frame operations\<close>

text \<open>
  Dates are whole day numbers (\<open>pd.Timestamp\<close> values at midnight, counted from a fixed
  epoch); a missing value (\<open>NaN\<close>, \<open>NaT\<close>, \<open>None\<close>, SQL \<open>NULL\<close>) is \<open>None\<close>. Money
  amounts, balances, profits and quantities are integers: the loader passes every such
  column through \<open>validator.clean_and_round_integer\<close>, and the text columns through
  \<open>validator.clean_and_trim_string\<close>; both are total and work cell by cell, so the
  model starts from the cleaned cells, and every column is taken to hold at least one
  value, so that pandas gives it its numeric, date or text type. Times of day are left
  out, also of \<open>datetime.now()\<close> and of \<open>JULIANDAY('now')\<close>, and no delivery date lies
  in the future. Quotients computed by the scoring module are exact rationals standing
  for the float64 values of the source.
\<close>

type_synonym date = int

datatype exn = FileNotFoundError | ValueError | TypeError | OtherError

text \<open>\<open>DataFrame.drop_duplicates(subset=key, keep='first')\<close> and \<open>keep='last'\<close>.\<close>

fun drop_duplicates_first :: "('a \<Rightarrow> 'k) \<Rightarrow> 'a list \<Rightarrow> 'a list" where
  "drop_duplicates_first key [] = []"
| "drop_duplicates_first key (x # xs) =
     x # drop_duplicates_first key [y \<leftarrow> xs. key y \<noteq> key x]"

definition drop_duplicates_last :: "('a \<Rightarrow> 'k) \<Rightarrow> 'a list \<Rightarrow> 'a list" where
  "drop_duplicates_last key xs = rev (drop_duplicates_first key (rev xs))"

text \<open>
  \<open>pd.merge(left, right, on=key, how='left')\<close>: every left row, in order, paired with
  each right row of the same key, or with nothing when there is none.
\<close>

definition left_join ::
    "('a \<Rightarrow> 'k) \<Rightarrow> ('b \<Rightarrow> 'k) \<Rightarrow> 'a list \<Rightarrow> 'b list \<Rightarrow> ('a \<times> 'b option) list" where
  "left_join lkey rkey left right =
     concat (map (\<lambda>l. case [r \<leftarrow> right. rkey r = lkey l] of
                          [] \<Rightarrow> [(l, None)]
                        | ms \<Rightarrow> map (\<lambda>r. (l, Some r)) ms) left)"

definition fillna :: "'a \<Rightarrow> 'a option \<Rightarrow> 'a" where
  "fillna d v = (case v of None \<Rightarrow> d | Some x \<Rightarrow> x)"

text \<open>Aggregations that skip missing values: \<open>sum\<close>, \<open>max\<close>, \<open>min\<close>, \<open>nunique\<close>, \<open>first\<close>.\<close>

definition sum_skipna :: "int option list \<Rightarrow> int" where
  "sum_skipna vs = sum_list (map (fillna 0) vs)"

definition max_skipna :: "int option list \<Rightarrow> int option" where
  "max_skipna vs = (case [x. Some x \<leftarrow> vs] of [] \<Rightarrow> None | x # xs \<Rightarrow> Some (fold max xs x))"

definition min_skipna :: "int option list \<Rightarrow> int option" where
  "min_skipna vs = (case [x. Some x \<leftarrow> vs] of [] \<Rightarrow> None | x # xs \<Rightarrow> Some (fold min xs x))"

definition nunique_skipna :: "'a option list \<Rightarrow> nat" where
  "nunique_skipna vs = length (remdups [x. Some x \<leftarrow> vs])"

definition first_notna :: "'a option list \<Rightarrow> 'a option" where
  "first_notna vs = (case [x. Some x \<leftarrow> vs] of [] \<Rightarrow> None | x # xs \<Rightarrow> Some x)"

section \<open>Customer codes (data_loader.py, lines 155--163)\<close>

text \<open>
  A cell of a \<open>customer_code\<close> column as pandas holds it after reading the spreadsheet:
  an \<open>int\<close> (\<open>IntV\<close>), a float (\<open>FloatV\<close>), a \<open>str\<close> (\<open>StrV\<close>) or \<open>NaN\<close>. Customer codes are
  whole numbers, so a float cell is modelled by its integral value: \<open>FloatV 7\<close> is the
  float \<open>7.0\<close>. A column read as float64 (one with a blank cell, say) holds \<open>FloatV\<close> and
  \<open>NaN\<close> cells only.
\<close>

datatype cell = IntV int | FloatV int | StrV string | NaN

text \<open>\<open>str(n)\<close> of a Python \<open>int\<close>.\<close>

definition digit_char :: "nat \<Rightarrow> char" where
  "digit_char d = ''0123456789'' ! d"

fun str_nat :: "nat \<Rightarrow> string" where
  "str_nat n = (if n < 10 then [digit_char n] else str_nat (n div 10) @ [digit_char (n mod 10)])"

declare str_nat.simps [simp del]

definition str_int :: "int \<Rightarrow> string" where
  "str_int i = (if i < 0 then CHR ''-'' # str_nat (nat (- i)) else str_nat (nat i))"

text \<open>
  \<open>int(s)\<close> of a Python \<open>str\<close>: blanks around the text are dropped, a sign may come
  first, and decimal digits follow; anything else (also \<open>"7.0"\<close>) is a \<open>ValueError\<close>,
  here \<open>None\<close>. Digit grouping with underscores and non-ASCII digits are left out.
\<close>

fun digits_val :: "string \<Rightarrow> nat \<Rightarrow> nat option" where
  "digits_val [] acc = Some acc"
| "digits_val (c # cs) acc =
     (if c \<in> set ''0123456789'' then digits_val cs (10 * acc + (of_char c - 48)) else None)"

definition is_space :: "char \<Rightarrow> bool" where
  "is_space c = (c = CHR '' '' \<or> c = CHR 0x09 \<or> c = CHR 0x0A \<or> c = CHR 0x0D)"

definition py_strip :: "string \<Rightarrow> string" where
  "py_strip s = rev (dropWhile is_space (rev (dropWhile is_space s)))"

definition py_int :: "string \<Rightarrow> int option" where
  "py_int s =
     (case py_strip s of
        [] \<Rightarrow> None
      | c # cs \<Rightarrow>
          if c = CHR ''-'' then (if cs = [] then None else map_option (\<lambda>n. - int n) (digits_val cs 0))
          else if c = CHR ''+'' then (if cs = [] then None else map_option int (digits_val cs 0))
          else map_option int (digits_val (c # cs) 0))"

text \<open>
  The three column operations of lines 159 and 163, cell by cell: \<open>fillna(-1)\<close>,
  \<open>astype(int)\<close> and \<open>astype(str)\<close>. \<open>astype(str)\<close> of the float \<open>7.0\<close> is \<open>"7.0"\<close> (for
  magnitudes below \<open>10^16\<close>; beyond, Python prints an exponent), of \<open>NaN\<close> it is \<open>"nan"\<close>.
\<close>

fun fillna_code :: "cell \<Rightarrow> cell" where
  "fillna_code NaN = IntV (- 1)"
| "fillna_code c = c"

fun code_astype_int :: "cell \<Rightarrow> exn + int" where
  "code_astype_int (IntV n) = Inr n"
| "code_astype_int (FloatV n) = Inr n"
| "code_astype_int (StrV s) = (case py_int s of None \<Rightarrow> Inl ValueError | Some n \<Rightarrow> Inr n)"
| "code_astype_int NaN = Inl ValueError"

fun code_astype_str :: "cell \<Rightarrow> string" where
  "code_astype_str (IntV n) = str_int n"
| "code_astype_str (FloatV n) = str_int n @ ''.0''"
| "code_astype_str (StrV s) = s"
| "code_astype_str NaN = ''nan''"

text \<open>Line 159, the credit side: \<open>fillna(-1).astype(int).astype(str)\<close>.\<close>

definition credit_standardize :: "cell \<Rightarrow> exn + string" where
  "credit_standardize c = map_sum id str_int (code_astype_int (fillna_code c))"

text \<open>Line 163, the sales side: \<open>astype(str)\<close>.\<close>

definition sales_standardize :: "cell \<Rightarrow> string" where
  "sales_standardize c = code_astype_str c"

section \<open>The loader (data_loader.py)\<close>

subsection \<open>Tables\<close>

text \<open>
  \<open>credit_df\<close>, \<open>sales_df\<close> and \<open>margin_df\<close> after renaming and cleaning. The type
  parameter is the type of the customer code: a raw \<open>cell\<close> before step 3B, a string
  after it. The credit file has the three columns of \<open>config.CREDIT_RENAME\<close>; the
  columns \<open>customer_name\<close> and \<open>route\<close>, which step 1 keeps when a credit file has
  them, are left out.
\<close>

record 'c credit_row =
  credit_code :: 'c
  credit_balance :: "int option"
  credit_last_invoice_date :: "date option"

record 'c sales_line =
  invoice_number :: "string option"
  delivery_date :: "date option"
  booker_name :: "string option"
  customer_code :: 'c
  customer_name :: "string option"
  product_name :: "string option"
  quantity :: "int option"
  amount :: "int option"
  company :: "string option"
  route :: "string option"

record margin_row =
  margin_invoice_number :: "string option"
  amount_from_margin :: "int option"
  margin_profit :: "int option"

text \<open>\<open>sales_aggregated\<close> (step 6), \<open>final_df\<close> (steps 8, 10, 11) and \<open>sales_detailed\<close>
  (steps 9, 10); the last one is also the row type of the table \<open>sales_data\<close>.\<close>

record sales_agg =
  agg_customer_code :: string
  total_sales_amount :: int
  total_quantity :: int
  last_delivery_date :: "date option"
  invoice_count :: nat
  agg_customer_name :: "string option"
  agg_route :: "string option"
  agg_booker_name :: "string option"
  agg_company :: "string option"

record summary_row =
  fd_customer_code :: string
  fd_balance :: "int option"
  fd_last_invoice_date :: "date option"
  fd_total_sales_amount :: int
  fd_total_quantity :: int
  fd_last_delivery_date :: "date option"
  fd_invoice_count :: nat
  fd_route :: string
  fd_booker_name :: string
  fd_company :: string
  days_since_last_sale :: int

record detail_row = "string sales_line" +
  profit :: int
  balance :: int
  last_invoice_date :: "date option"

text \<open>
  What the loader reads: the result of \<open>pd.read_excel\<close> for the credit file, for each
  file of \<open>config.SALES_FILES\<close> and for the margin file, each either the rows read or
  the exception raised (a missing file, or any other failure to read it).
\<close>

record sources =
  credit_file :: "exn + cell credit_row list"
  sales_files :: "(exn + cell sales_line list) list"
  margin_file :: "exn + margin_row list"

subsection \<open>Steps 1 and 2: reading the credit and sales files\<close>

text \<open>
  Step 1 (lines 30--95): any exception makes the function return \<open>None\<close>; otherwise the
  balance sign is inverted and duplicate codes are dropped, keeping the last row.
\<close>

definition load_credit :: "sources \<Rightarrow> cell credit_row list option" where
  "load_credit src =
     (case credit_file src of
        Inl e \<Rightarrow> None
      | Inr credit_df \<Rightarrow>
          Some (drop_duplicates_last credit_code
                  (map (\<lambda>r. r\<lparr>credit_balance := map_option (\<lambda>b. b * - 1) (credit_balance r)\<rparr>)
                     credit_df)))"

text \<open>
  Step 2 (lines 100--127): the files are read in order and concatenated; the first
  exception makes the function return \<open>None\<close>, and so does \<open>pd.concat\<close> of no frame at
  all (a \<open>ValueError\<close>, caught by the same handler).
\<close>

fun read_sales_files :: "(exn + 'a list) list \<Rightarrow> 'a list list option" where
  "read_sales_files [] = Some []"
| "read_sales_files (Inl e # files) = None"
| "read_sales_files (Inr df # files) = map_option ((#) df) (read_sales_files files)"

definition load_sales :: "sources \<Rightarrow> cell sales_line list option" where
  "load_sales src =
     (case read_sales_files (sales_files src) of
        None \<Rightarrow> None
      | Some all_sales_dfs \<Rightarrow> if all_sales_dfs = [] then None else Some (concat all_sales_dfs))"

subsection \<open>Step 3B: standardizing the customer codes\<close>

text \<open>
  Lines 159--160: \<open>astype(int)\<close> raises for the whole column when one cell cannot be
  converted (the statement stands outside every \<open>try\<close>); rows whose code became
  \<open>"-1"\<close> are removed. Line 163 converts the sales codes.
\<close>

definition standardize_credit_codes :: "cell credit_row list \<Rightarrow> exn + string credit_row list" where
  "standardize_credit_codes credit_df =
     (if list_ex (\<lambda>r. isl (credit_standardize (credit_code r))) credit_df then Inl ValueError
      else Inr [r \<leftarrow> map (\<lambda>r. \<lparr>credit_code = projr (credit_standardize (credit_code r)),
                                 credit_balance = credit_balance r,
                                 credit_last_invoice_date = credit_last_invoice_date r\<rparr>) credit_df.
                credit_code r \<noteq> ''-1''])"

definition standardize_sales_codes :: "cell sales_line list \<Rightarrow> string sales_line list" where
  "standardize_sales_codes sales_df =
     map (\<lambda>r. \<lparr>invoice_number = invoice_number r, delivery_date = delivery_date r,
               booker_name = booker_name r, customer_code = sales_standardize (customer_code r),
               customer_name = customer_name r, product_name = product_name r,
               quantity = quantity r, amount = amount r, company = company r,
               route = route r\<rparr>) sales_df"

text \<open>Lines 171--173: \<open>len(credit_codes_set & sales_codes_set)\<close>.\<close>

definition immediate_matches :: "string credit_row list \<Rightarrow> string sales_line list \<Rightarrow> nat" where
  "immediate_matches credit_df sales_df =
     length (remdups [c \<leftarrow> map credit_code credit_df. c \<in> set (map customer_code sales_df)])"

subsection \<open>Step 4: removing duplicate invoice lines\<close>

text \<open>
  \<open>sort_values('delivery_date', ascending=...)\<close> puts the rows without a date last in
  both directions. The sort is taken to be stable; rows that differ in their dates are
  ordered the same way by any sort.
\<close>

definition sort_by_delivery_date :: "bool \<Rightarrow> string sales_line list \<Rightarrow> string sales_line list" where
  "sort_by_delivery_date ascending df =
     sort_key (\<lambda>r. (if ascending then 1 else - 1) * the (delivery_date r))
        [r \<leftarrow> df. delivery_date r \<noteq> None]
     @ [r \<leftarrow> df. delivery_date r = None]"

definition remove_duplicate_invoices :: "string sales_line list \<Rightarrow> string sales_line list" where
  "remove_duplicate_invoices sales_df =
     sort_by_delivery_date True
       (drop_duplicates_first (\<lambda>r. (invoice_number r, product_name r))
          (sort_by_delivery_date False sales_df))"

subsection \<open>Steps 6 and 7: aggregating the sales, reading the margins\<close>

text \<open>
  \<open>groupby('customer_code').agg(...)\<close>: one row per code. pandas orders the groups by
  their key; the order plays no role in the joins that follow.
\<close>

definition aggregate_sales :: "string sales_line list \<Rightarrow> sales_agg list" where
  "aggregate_sales sales_df =
     map (\<lambda>c. let g = [r \<leftarrow> sales_df. customer_code r = c] in
            \<lparr>agg_customer_code = c,
             total_sales_amount = sum_skipna (map amount g),
             total_quantity = sum_skipna (map quantity g),
             last_delivery_date = max_skipna (map delivery_date g),
             invoice_count = nunique_skipna (map invoice_number g),
             agg_customer_name = first_notna (map customer_name g),
             agg_route = first_notna (map route g),
             agg_booker_name = first_notna (map booker_name g),
             agg_company = first_notna (map company g)\<rparr>)
       (remdups (map customer_code sales_df))"

text \<open>Step 7 (lines 242--278): a margin file that cannot be read gives an empty frame.\<close>

definition load_margin :: "sources \<Rightarrow> margin_row list" where
  "load_margin src =
     (case margin_file src of
        Inl e \<Rightarrow> []
      | Inr margin_df \<Rightarrow> drop_duplicates_last margin_invoice_number margin_df)"

subsection \<open>Steps 8 to 11: the two merged tables\<close>

text \<open>
  \<open>final_df\<close>: the aggregated sales merged into the credit table (left join, lines
  287--294), the defaults of step 10 and the days since the last activity of step 11.
\<close>

definition merge_customer_summary ::
    "date \<Rightarrow> string credit_row list \<Rightarrow> sales_agg list \<Rightarrow> summary_row list" where
  "merge_customer_summary today credit_df sales_aggregated =
     map (\<lambda>(c, a).
            let last_delivery = Option.bind a last_delivery_date in
            \<lparr>fd_customer_code = credit_code c,
             fd_balance = credit_balance c,
             fd_last_invoice_date = credit_last_invoice_date c,
             fd_total_sales_amount = fillna 0 (map_option total_sales_amount a),
             fd_total_quantity = fillna 0 (map_option total_quantity a),
             fd_last_delivery_date = last_delivery,
             fd_invoice_count = fillna 0 (map_option invoice_count a),
             fd_route = fillna ''N/A'' (Option.bind a agg_route),
             fd_booker_name = fillna ''N/A'' (Option.bind a agg_booker_name),
             fd_company = fillna ''N/A'' (Option.bind a agg_company),
             days_since_last_sale =
               (case last_delivery of
                  Some d \<Rightarrow> today - d
                | None \<Rightarrow> (case credit_last_invoice_date c of Some d \<Rightarrow> today - d | None \<Rightarrow> 999))\<rparr>)
       (left_join credit_code agg_customer_code credit_df sales_aggregated)"

text \<open>
  \<open>sales_detailed\<close>: the margins merged onto the sales lines by invoice number, then the
  credit balance and last invoice date by customer code (both left joins, lines
  304--317), with \<open>profit\<close> and \<open>balance\<close> filled with 0 (lines 343--347).
\<close>

definition merge_sales_detailed ::
    "string sales_line list \<Rightarrow> margin_row list \<Rightarrow> string credit_row list \<Rightarrow> detail_row list" where
  "merge_sales_detailed sales_df margin_df credit_df =
     map (\<lambda>((s, m), c).
            sales_line.extend s
              \<lparr>profit = fillna 0 (Option.bind m margin_profit),
               balance = fillna 0 (Option.bind c credit_balance),
               last_invoice_date = Option.bind c credit_last_invoice_date\<rparr>)
       (left_join (\<lambda>(s, m). customer_code s) credit_code
          (left_join invoice_number margin_invoice_number sales_df margin_df) credit_df)"

subsection \<open>load_clean_and_merge_data and update_database\<close>

text \<open>
  \<open>reconcile\<close> is the body of \<open>load_clean_and_merge_data\<close> up to its last line, giving
  the two tables it has built there, \<open>final_df\<close> and \<open>sales_detailed\<close>; \<open>today\<close> is
  \<open>datetime.now()\<close>. The result is \<open>Inl e\<close> when an exception escapes, \<open>Inr None\<close> when
  the function returns \<open>None\<close>.
\<close>

definition reconcile :: "sources \<Rightarrow> date \<Rightarrow> exn + (summary_row list \<times> detail_row list) option" where
  "reconcile src today =
     (case load_credit src of
        None \<Rightarrow> Inr None
      | Some credit_raw \<Rightarrow>
     (case load_sales src of
        None \<Rightarrow> Inr None
      | Some sales_raw \<Rightarrow>
     (case standardize_credit_codes credit_raw of
        Inl e \<Rightarrow> Inl e
      | Inr credit_df \<Rightarrow>
          (let sales_std = standardize_sales_codes sales_raw in
           if immediate_matches credit_df sales_std = 0 then Inr None
           else
             (let sales_df = remove_duplicate_invoices sales_std;
                  sales_aggregated = aggregate_sales sales_df;
                  margin_df = load_margin src;
                  final_df = merge_customer_summary today credit_df sales_aggregated;
                  sales_detailed = merge_sales_detailed sales_df margin_df credit_df
              in Inr (Some (final_df, sales_detailed)))))))"

text \<open>Line 417: \<open>return sales_detailed\<close>.\<close>

definition load_clean_and_merge_data :: "sources \<Rightarrow> date \<Rightarrow> exn + detail_row list option" where
  "load_clean_and_merge_data src today = map_sum id (map_option snd) (reconcile src today)"

text \<open>The customer summary and the credit roster the loader works with internally.\<close>

definition customer_summary :: "sources \<Rightarrow> date \<Rightarrow> exn + summary_row list option" where
  "customer_summary src today = map_sum id (map_option fst) (reconcile src today)"

definition credit_roster :: "sources \<Rightarrow> exn + string credit_row list option" where
  "credit_roster src =
     (case load_credit src of
        None \<Rightarrow> Inr None
      | Some credit_raw \<Rightarrow> map_sum id Some (standardize_credit_codes credit_raw))"

text \<open>
  The database holds the table \<open>sales_data\<close>, or no table yet. \<open>update_database\<close> takes
  the effect of \<open>to_sql\<close> as a parameter: it gives the exception raised, if any, and the
  database it leaves behind. \<open>to_sql_replace\<close> is a write that succeeds.
\<close>

type_synonym database = "detail_row list option"

definition to_sql_replace :: "detail_row list \<Rightarrow> database \<Rightarrow> exn option \<times> database" where
  "to_sql_replace final_data db = (None, Some final_data)"

definition update_database ::
    "(detail_row list \<Rightarrow> database \<Rightarrow> exn option \<times> database) \<Rightarrow> sources \<Rightarrow> date \<Rightarrow> database
       \<Rightarrow> exn + (bool \<times> database)" where
  "update_database to_sql src today db =
     (case load_clean_and_merge_data src today of
        Inl e \<Rightarrow> Inl e
      | Inr None \<Rightarrow> Inr (False, db)
      | Inr (Some final_data) \<Rightarrow>
          (case to_sql final_data db of
             (None, db') \<Rightarrow> Inr (True, db')
           | (Some e, db') \<Rightarrow> Inr (False, db')))"

section \<open>The scoring module (scoring.py)\<close>

subsection \<open>Configuration (lines 22--38)\<close>

definition VISIT_CYCLE_DAYS :: int where "VISIT_CYCLE_DAYS = 7"
definition DSO_EXCELLENT :: rat where "DSO_EXCELLENT = 14"
definition DSO_GOOD :: rat where "DSO_GOOD = 21"
definition DSO_FAIR :: rat where "DSO_FAIR = 35"
definition DSO_POOR :: rat where "DSO_POOR = 60"
definition MARGIN_EXCELLENT :: rat where "MARGIN_EXCELLENT = 10"
definition MARGIN_GOOD :: rat where "MARGIN_GOOD = 8"
definition MARGIN_FAIR :: rat where "MARGIN_FAIR = 5"
definition MARGIN_LOW :: rat where "MARGIN_LOW = 3"

subsection \<open>The SQL query of get_customer_scores (lines 67--107)\<close>

text \<open>
  One row of the data frame \<open>df\<close> that the query returns. \<open>recency\<close> and \<open>days_active\<close>
  are \<open>CAST(... AS INTEGER)\<close> of Julian-day differences and may be \<open>NULL\<close>.
\<close>

record customer_metrics =
  sc_customer_name :: "string option"
  sc_customer_code :: string
  recency :: "int option"
  frequency :: int
  monetary_value :: int
  total_profit :: int
  sc_balance :: int
  days_active :: "int option"

text \<open>The rows of the two common table expressions.\<close>

record invoice_level_row =
  il_customer_code :: string
  il_customer_name :: "string option"
  il_invoice_number :: "string option"
  il_delivery_date :: "date option"
  il_profit :: int
  il_balance :: int

record product_aggregate =
  pa_customer_code :: string
  pa_customer_name :: "string option"
  total_amount :: "int option"
  pa_total_quantity :: "int option"

text \<open>SQL \<open>SUM\<close>: \<open>NULL\<close> values are skipped, and the sum of no value is \<open>NULL\<close>.\<close>

definition sql_sum :: "int option list \<Rightarrow> int option" where
  "sql_sum vs = (case [x. Some x \<leftarrow> vs] of [] \<Rightarrow> None | x # xs \<Rightarrow> Some (sum_list (x # xs)))"

text \<open>\<open>WHERE delivery_date IS NOT NULL\<close>, the filter of both expressions.\<close>

definition dated :: "detail_row list \<Rightarrow> detail_row list" where
  "dated sales_data = [r \<leftarrow> sales_data. delivery_date r \<noteq> None]"

text \<open>
  \<open>invoice_level\<close>: \<open>SELECT DISTINCT customer_code, customer_name, invoice_number,
  delivery_date, profit, balance\<close>. Two lines of one invoice give one row only when they
  agree in all six columns.
\<close>

definition invoice_level :: "detail_row list \<Rightarrow> invoice_level_row list" where
  "invoice_level sales_data =
     remdups (map (\<lambda>r. \<lparr>il_customer_code = customer_code r, il_customer_name = customer_name r,
                         il_invoice_number = invoice_number r, il_delivery_date = delivery_date r,
                         il_profit = profit r, il_balance = balance r\<rparr>)
                (dated sales_data))"

text \<open>\<open>product_aggregates\<close>: \<open>GROUP BY customer_code, customer_name\<close>.\<close>

definition product_aggregates :: "detail_row list \<Rightarrow> product_aggregate list" where
  "product_aggregates sales_data =
     map (\<lambda>(c, n).
            let g = [r \<leftarrow> dated sales_data. customer_code r = c \<and> customer_name r = n] in
            \<lparr>pa_customer_code = c, pa_customer_name = n,
             total_amount = sql_sum (map amount g),
             pa_total_quantity = sql_sum (map quantity g)\<rparr>)
       (remdups (map (\<lambda>r. (customer_code r, customer_name r)) (dated sales_data)))"

text \<open>The join \<open>invoice_level i JOIN product_aggregates p ON i.customer_code =
  p.customer_code\<close> and the rows of one group of \<open>GROUP BY i.customer_name,
  i.customer_code\<close>.\<close>

definition joined_rows :: "detail_row list \<Rightarrow> (invoice_level_row \<times> product_aggregate) list" where
  "joined_rows sales_data =
     concat (map (\<lambda>i. map (Pair i)
                [p \<leftarrow> product_aggregates sales_data. pa_customer_code p = il_customer_code i])
             (invoice_level sales_data))"

definition group_key :: "invoice_level_row \<times> product_aggregate \<Rightarrow> string option \<times> string" where
  "group_key ip = (il_customer_name (fst ip), il_customer_code (fst ip))"

text \<open>
  The result row of one group, from its invoice-level rows \<open>g\<close> and the aggregate row
  \<open>p\<close> that the bare column \<open>p.total_amount\<close> is read from; \<open>HAVING p.total_amount > 0\<close>
  drops the group otherwise. \<open>now\<close> is the day of \<open>JULIANDAY('now')\<close>.
\<close>

definition metrics_of_group ::
    "date \<Rightarrow> string option \<times> string \<Rightarrow> invoice_level_row list \<Rightarrow> product_aggregate
       \<Rightarrow> customer_metrics list" where
  "metrics_of_group now key g p =
     (let newest = max_skipna (map il_delivery_date g);
          oldest = min_skipna (map il_delivery_date g)
      in (case total_amount p of
            None \<Rightarrow> []
          | Some monetary \<Rightarrow>
              if 0 < monetary
              then [\<lparr>sc_customer_name = fst key, sc_customer_code = snd key,
                     recency = map_option (\<lambda>d. now - d) newest,
                     frequency = int (nunique_skipna (map il_invoice_number g)),
                     monetary_value = monetary,
                     total_profit = sum_list (map il_profit g),
                     sc_balance = fillna 0 (max_skipna (map (\<lambda>i. Some (il_balance i)) g)),
                     days_active = (case (newest, oldest) of
                                      (Some a, Some b) \<Rightarrow> Some (a - b) | _ \<Rightarrow> None)\<rparr>]
              else []))"

text \<open>
  The final \<open>SELECT\<close>. \<open>p.total_amount\<close> is a bare column of the grouped query: SQLite
  takes it from one row of the group, here the first; all rows of a group carry the
  same value unless one customer code occurs under several names. SQL leaves the order
  of the result rows open; here it is the order in which the groups first occur.
\<close>

definition customer_metrics_query :: "date \<Rightarrow> detail_row list \<Rightarrow> customer_metrics list" where
  "customer_metrics_query now sales_data =
     (let joined = joined_rows sales_data
      in concat (map (\<lambda>key. let g = [ip \<leftarrow> joined. group_key ip = key]
                             in metrics_of_group now key (map fst g) (snd (hd g)))
                   (remdups (map group_key joined))))"

subsection \<open>Data cleaning and business metrics (lines 119--156)\<close>

text \<open>Lines 124--126: \<open>fillna(999)\<close> for recency, \<open>fillna(7).clip(lower=7)\<close> for days_active.\<close>

definition clean_recency :: "int option \<Rightarrow> int" where
  "clean_recency r = (case r of None \<Rightarrow> 999 | Some d \<Rightarrow> d)"

definition clean_days_active :: "int option \<Rightarrow> int" where
  "clean_days_active a =
     max VISIT_CYCLE_DAYS (case a of None \<Rightarrow> VISIT_CYCLE_DAYS | Some d \<Rightarrow> d)"

text \<open>
  Float division of pandas/numpy: dividing by zero does not raise, it yields \<open>inf\<close> or
  \<open>NaN\<close>; both are the value \<open>None\<close> here.
\<close>

definition np_div :: "rat \<Rightarrow> rat \<Rightarrow> rat option" where
  "np_div a b = (if b = 0 then None else Some (a / b))"

definition np_times :: "rat option \<Rightarrow> rat \<Rightarrow> rat option" where
  "np_times a k = map_option (\<lambda>v. v * k) a"

text \<open>Line 132: \<open>weekly_sales = (monetary_value / days_active) * VISIT_CYCLE_DAYS\<close>.\<close>

definition weekly_sales_of :: "int \<Rightarrow> int option \<Rightarrow> rat option" where
  "weekly_sales_of monetary active =
     np_times (np_div (of_int monetary) (of_int (clean_days_active active)))
       (of_int VISIT_CYCLE_DAYS)"

text \<open>
  Lines 135--140. \<open>np.where\<close> evaluates both branches and selects by the condition; a
  comparison with \<open>NaN\<close> is false; \<open>fillna(0)\<close> replaces a selected \<open>NaN\<close>; \<open>clip\<close>
  bounds the result.
\<close>

definition np_gt0 :: "rat option \<Rightarrow> bool" where
  "np_gt0 v = (case v of None \<Rightarrow> False | Some x \<Rightarrow> 0 < x)"

definition np_div_opt :: "rat \<Rightarrow> rat option \<Rightarrow> rat option" where
  "np_div_opt a b = (case b of None \<Rightarrow> None | Some y \<Rightarrow> np_div a y)"

definition clip :: "rat \<Rightarrow> rat \<Rightarrow> rat \<Rightarrow> rat" where
  "clip lo hi x = min hi (max lo x)"

definition dso_of :: "int \<Rightarrow> rat option \<Rightarrow> rat" where
  "dso_of bal weekly =
     (let quotient = np_times (np_div_opt (of_int bal) weekly) (of_int VISIT_CYCLE_DAYS);
          selected = (if np_gt0 weekly \<and> 0 < bal then quotient else Some 0)
      in clip 0 999 (fillna 0 selected))"

text \<open>Lines 144--148: the profit margin in percent.\<close>

definition profit_margin_pct_of :: "int \<Rightarrow> int \<Rightarrow> rat" where
  "profit_margin_pct_of prof monetary =
     (if 0 < monetary
      then fillna 0 (np_times (np_div (of_int prof) (of_int monetary)) 100)
      else 0)"

subsection \<open>create_score (lines 218--234)\<close>

text \<open>\<open>series.nunique()\<close> and \<open>series.rank(method='first')\<close>: the rank of a value is its
  position in ascending order, equal values ranked in their order of appearance.\<close>

definition nunique :: "rat list \<Rightarrow> nat" where
  "nunique series = length (remdups series)"

definition rank_first :: "rat list \<Rightarrow> rat list" where
  "rank_first series =
     map (\<lambda>i. of_nat (1 + length [y \<leftarrow> series. y < series ! i]
                        + length [y \<leftarrow> take i series. y = series ! i]))
       [0..<length series]"

text \<open>Python's \<open>range(start, stop, step)\<close> as a list.\<close>

definition py_range :: "int \<Rightarrow> int \<Rightarrow> int \<Rightarrow> int list" where
  "py_range start stop step =
     (if 0 < step
      then map (\<lambda>i. start + int i * step) [0..<nat ((stop - start + step - 1) div step)]
      else if step < 0
      then map (\<lambda>i. start + int i * step) [0..<nat ((start - stop - step - 1) div (- step))]
      else [])"

text \<open>\<open>np.linspace(start, stop, n + 1)\<close>: the \<open>n + 1\<close> edges of \<open>n\<close> intervals of equal width.\<close>

definition np_linspace :: "rat \<Rightarrow> rat \<Rightarrow> nat \<Rightarrow> rat list" where
  "np_linspace start stop n =
     map (\<lambda>i. start + (stop - start) * of_nat i / of_nat n) [0..<Suc n]"

text \<open>
  The bin edges \<open>pd.cut\<close> computes for a number of bins: the range of the data in equal
  parts, the lowest edge moved down by 0.1 percent of the range; a single value gets a
  range of 0.1 percent around it. No bins or no data is a \<open>ValueError\<close>.
\<close>

definition nbins_to_bins :: "rat list \<Rightarrow> nat \<Rightarrow> exn + rat list" where
  "nbins_to_bins x nbins =
     (if nbins < 1 then Inl ValueError
      else if x = [] then Inl ValueError
      else (let mn = Min (set x); mx = Max (set x) in
        if mn = mx
        then Inr (np_linspace (mn - (if mn \<noteq> 0 then \<bar>mn\<bar> / 1000 else 1 / 1000))
                    (mx + (if mx \<noteq> 0 then \<bar>mx\<bar> / 1000 else 1 / 1000)) nbins)
        else (let bins = np_linspace mn mx nbins; adj = (mx - mn) / 1000
              in Inr ((hd bins - adj) # tl bins))))"

text \<open>\<open>bins.searchsorted(v, side='left')\<close> for ascending edges: the number of edges
  below \<open>v\<close>.\<close>

definition searchsorted_left :: "rat list \<Rightarrow> rat \<Rightarrow> nat" where
  "searchsorted_left bins v = length (takeWhile (\<lambda>b. b < v) bins)"

text \<open>
  The label of each value for given edges, with \<open>right=True\<close> and
  \<open>include_lowest=True\<close>: duplicate edges raise a \<open>ValueError\<close> or are dropped
  (\<open>duplicates='drop'\<close>); the labels must be distinct and one fewer than the edges; a
  value outside all bins gets \<open>NaN\<close>.
\<close>

definition bins_to_cuts ::
    "rat list \<Rightarrow> rat list \<Rightarrow> int list \<Rightarrow> bool \<Rightarrow> exn + int option list" where
  "bins_to_cuts x bins0 labels drop_dups =
     (let unique_bins = drop_duplicates_first id bins0;
          dups = (length unique_bins < length bins0 \<and> length bins0 \<noteq> 2)
      in if dups \<and> \<not> drop_dups then Inl ValueError
         else (let bins = (if dups then unique_bins else bins0) in
           if \<not> distinct labels then Inl ValueError
           else if length labels \<noteq> length bins - 1 then Inl ValueError
           else Inr (map (\<lambda>v.
                  let ids = (if bins \<noteq> [] \<and> v = hd bins then 1 else searchsorted_left bins v)
                  in if ids = length bins \<or> ids = 0 then None else Some (labels ! (ids - 1))) x)))"

text \<open>\<open>.astype(int)\<close> of the labelled values: a \<open>NaN\<close> among them is a \<open>ValueError\<close>.\<close>

definition labels_astype_int :: "int option list \<Rightarrow> exn + int list" where
  "labels_astype_int cs = (if None \<in> set cs then Inl ValueError else Inr (map the cs))"

text \<open>\<open>pd.cut(x, bins=nbins, labels=labels, include_lowest=True).astype(int)\<close>.\<close>

definition pd_cut :: "rat list \<Rightarrow> nat \<Rightarrow> int list \<Rightarrow> exn + int list" where
  "pd_cut x nbins labels =
     (case nbins_to_bins x nbins of
        Inl e \<Rightarrow> Inl e
      | Inr bins \<Rightarrow>
          (case bins_to_cuts x bins labels False of
             Inl e \<Rightarrow> Inl e
           | Inr cs \<Rightarrow> labels_astype_int cs))"

text \<open>\<open>Series.quantile(q)\<close> with linear interpolation between the two nearest values.\<close>

definition quantile :: "rat list \<Rightarrow> rat \<Rightarrow> rat" where
  "quantile x q =
     (let s = sort x; pos = q * of_nat (length s - 1); lo = nat \<lfloor>pos\<rfloor>;
          frac = pos - of_nat lo
      in if lo + 1 < length s then s ! lo + (s ! (lo + 1) - s ! lo) * frac else s ! lo)"

text \<open>\<open>pd.qcut(x, q=q, labels=labels, duplicates='drop').astype(int)\<close>.\<close>

definition pd_qcut :: "rat list \<Rightarrow> nat \<Rightarrow> int list \<Rightarrow> exn + int list" where
  "pd_qcut x q labels =
     (case bins_to_cuts x (map (quantile x) (np_linspace 0 1 q)) labels True of
        Inl e \<Rightarrow> Inl e
      | Inr cs \<Rightarrow> labels_astype_int cs)"

text \<open>
  \<open>min(v)\<close> called with one argument that is an \<open>int\<close>: Python raises a \<open>TypeError\<close>
  (an \<open>int\<close> is not iterable).
\<close>

definition py_min_int :: "int \<Rightarrow> exn + int" where
  "py_min_int v = Inl TypeError"

text \<open>
  In the branch for fewer than five distinct values the labels of the reversed score
  are \<open>range(5, 5-min(series.nunique()), -1)\<close>, with \<open>min\<close> of the single number; the
  labels of the other score are \<open>range(1, min(series.nunique()+1, 6))\<close>. The arguments
  are evaluated before \<open>pd.cut\<close> is called, and this branch stands outside the \<open>try\<close>.
\<close>

definition create_score :: "rat list \<Rightarrow> bool \<Rightarrow> exn + int list" where
  "create_score series reverse =
     (let n = nunique series in
      if n < 5 then
        (if reverse
         then (case py_min_int (int n) of
                 Inl e \<Rightarrow> Inl e
               | Inr k \<Rightarrow> pd_cut (rank_first series) (min n 5) (py_range 5 (5 - k) (- 1)))
         else pd_cut (rank_first series) (min n 5) (py_range 1 (int (min (n + 1) 6)) 1))
      else
        (case (if reverse then pd_qcut series 5 [5, 4, 3, 2, 1]
               else pd_qcut (rank_first series) 5 [1, 2, 3, 4, 5]) of
           Inr scores \<Rightarrow> Inr scores
         | Inl ValueError \<Rightarrow>
             (if reverse then pd_cut (rank_first series) 5 [5, 4, 3, 2, 1]
              else pd_cut (rank_first series) 5 [1, 2, 3, 4, 5])
         | Inl e \<Rightarrow> Inl e))"

subsection \<open>Row-wise helper functions (lines 236--316)\<close>

definition calculate_credit_score :: "int \<Rightarrow> rat \<Rightarrow> int" where
  "calculate_credit_score bal dso_days =
     (if bal \<le> 0 then 5
      else if dso_days \<le> DSO_EXCELLENT then 5
      else if dso_days \<le> DSO_GOOD then 4
      else if dso_days \<le> DSO_FAIR then 3
      else if dso_days \<le> DSO_POOR then 2
      else 1)"

definition calculate_profit_score :: "rat \<Rightarrow> int" where
  "calculate_profit_score margin_pct =
     (if margin_pct \<ge> MARGIN_EXCELLENT then 5
      else if margin_pct \<ge> MARGIN_GOOD then 4
      else if margin_pct \<ge> MARGIN_FAIR then 3
      else if margin_pct \<ge> MARGIN_LOW then 2
      else 1)"

text \<open>
  The segment labels of \<open>assign_segment\<close>. The source prefixes each label with an emoji
  and a blank; \<open>segment_label\<close> gives the words that follow.
\<close>

datatype segment =
  High_Risk | Credit_Risk | Review_Pricing | Champions | Loyal | Potential | At_Risk | Dormant

fun segment_label :: "segment \<Rightarrow> string" where
  "segment_label High_Risk = ''High Risk''"
| "segment_label Credit_Risk = ''Credit Risk''"
| "segment_label Review_Pricing = ''Review Pricing''"
| "segment_label Champions = ''Champions''"
| "segment_label Loyal = ''Loyal''"
| "segment_label Potential = ''Potential''"
| "segment_label At_Risk = ''At Risk''"
| "segment_label Dormant = ''Dormant''"

text \<open>The scored row: the metrics, the DSO, the margin and the scores.\<close>

record score_record = customer_metrics +
  dso :: rat
  profit_margin_pct :: rat
  R_Score :: int
  F_Score :: int
  M_Score :: int
  C_Score :: int
  P_Score :: int
  Total_Score :: int
  RFM_Score :: int

definition assign_segment :: "'a score_record_scheme \<Rightarrow> segment" where
  "assign_segment row =
     (if C_Score row = 1 \<and> sc_balance row > 50000 then High_Risk
      else if C_Score row \<le> 2 \<and> sc_balance row > 20000 then Credit_Risk
      else if P_Score row \<le> 2 \<and> RFM_Score row \<ge> 10 then Review_Pricing
      else if Total_Score row \<ge> 85 then Champions
      else if Total_Score row \<ge> 70 then Loyal
      else if Total_Score row \<ge> 55 then Potential
      else if Total_Score row \<ge> 40 then At_Risk
      else Dormant)"

text \<open>\<open>assign_risk_flag\<close>: the list of flags; the source joins it with \<open>" | "\<close>, and
  returns \<open>"OK"\<close> when it is empty.\<close>

definition assign_risk_flag :: "'a score_record_scheme \<Rightarrow> string list" where
  "assign_risk_flag row =
     (if C_Score row \<le> 2 \<and> sc_balance row > 0 then [''CREDIT''] else []) @
     (if P_Score row \<le> 2 then [''PROFIT''] else []) @
     (if R_Score row \<le> 2 then [''INACTIVE''] else [])"

text \<open>\<open>assign_priority\<close>: the source tests the emoji of the segment label and the flag
  names inside the joined flag text.\<close>

definition assign_priority :: "segment \<Rightarrow> string list \<Rightarrow> int" where
  "assign_priority seg risk =
     (if seg = High_Risk \<or> ''CREDIT'' \<in> set risk then 1
      else if seg = Credit_Risk \<or> seg = Review_Pricing then 2
      else if seg = Potential \<or> seg = At_Risk \<or> ''INACTIVE'' \<in> set risk then 3
      else if seg = Champions \<or> seg = Loyal then 4
      else 5)"

subsection \<open>get_customer_scores (lines 44--212)\<close>

record scored_customer = score_record +
  Segment :: segment
  Risk_Flag :: "string list"
  Priority :: int

text \<open>\<open>Series.round(0)\<close> and \<open>round(1)\<close>: to the nearest value, a tie to the even one.\<close>

definition np_round :: "rat \<Rightarrow> rat" where
  "np_round x =
     (let f = \<lfloor>x\<rfloor>; d = x - of_int f
      in of_int (if d < 1 / 2 then f else if 1 / 2 < d then f + 1
                 else if even f then f else f + 1))"

definition np_round1 :: "rat \<Rightarrow> rat" where
  "np_round1 x = np_round (x * 10) / 10"

text \<open>Lines 120--180 for one row, given its three quintile scores.\<close>

definition score_row :: "customer_metrics \<Rightarrow> int \<Rightarrow> int \<Rightarrow> int \<Rightarrow> score_record" where
  "score_row m r f mo =
     (let d = dso_of (sc_balance m) (weekly_sales_of (monetary_value m) (days_active m));
          pct = profit_margin_pct_of (total_profit m) (monetary_value m);
          c = calculate_credit_score (sc_balance m) d;
          p = calculate_profit_score pct
      in \<lparr>sc_customer_name = sc_customer_name m, sc_customer_code = sc_customer_code m,
          recency = Some (clean_recency (recency m)), frequency = frequency m,
          monetary_value = monetary_value m, total_profit = total_profit m,
          sc_balance = sc_balance m, days_active = Some (clean_days_active (days_active m)),
          dso = d, profit_margin_pct = pct,
          R_Score = r, F_Score = f, M_Score = mo, C_Score = c, P_Score = p,
          Total_Score = r * 4 + f * 3 + mo * 6 + c * 4 + p * 3,
          RFM_Score = r + f + mo\<rparr>)"

text \<open>Lines 186--200 for one row: segment, flags, priority, and the rounded display values.\<close>

definition finish_row :: "score_record \<Rightarrow> scored_customer" where
  "finish_row row =
     score_record.extend (row\<lparr>dso := np_round (dso row),
                              profit_margin_pct := np_round1 (profit_margin_pct row)\<rparr>)
       \<lparr>Segment = assign_segment row, Risk_Flag = assign_risk_flag row,
        Priority = assign_priority (assign_segment row) (assign_risk_flag row)\<rparr>"

text \<open>
  Lines 116--202: an empty frame is returned as it is; otherwise the three quintile
  scores are computed over the whole population (an exception of \<open>create_score\<close>
  escapes, the calls stand outside the \<open>try\<close>), each row is completed, and the rows are
  sorted by \<open>Total_Score\<close>, highest first.
\<close>

definition score_customers :: "customer_metrics list \<Rightarrow> exn + scored_customer list" where
  "score_customers df =
     (if df = [] then Inr []
      else
        (case create_score (map (\<lambda>m. of_int (clean_recency (recency m))) df) True of
           Inl e \<Rightarrow> Inl e
         | Inr rs \<Rightarrow>
        (case create_score (map (\<lambda>m. of_int (frequency m)) df) False of
           Inl e \<Rightarrow> Inl e
         | Inr fs \<Rightarrow>
        (case create_score (map (\<lambda>m. of_int (monetary_value m)) df) False of
           Inl e \<Rightarrow> Inl e
         | Inr ms \<Rightarrow>
             Inr (sort_key (\<lambda>row. - Total_Score row)
                    (map (\<lambda>i. finish_row (score_row (df ! i) (rs ! i) (fs ! i) (ms ! i)))
                       [0..<length df]))))))"

text \<open>A database without the table makes the query fail; the exception is caught and
  an empty frame returned (lines 112--114).\<close>

definition get_customer_scores :: "database \<Rightarrow> date \<Rightarrow> exn + scored_customer list" where
  "get_customer_scores db now =
     (case db of
        None \<Rightarrow> Inr []
      | Some sales_data \<Rightarrow> score_customers (customer_metrics_query now sales_data))"

section \<open>Example data\<close>

text \<open>
  The end-to-end scenario of the specification: one credit customer with code 7 and a
  raw balance of -1000, two sales lines of invoice A1 for the code "7", and one margin
  row for A1. \<open>src_two\<close> adds a credit customer without sales, \<open>src_float\<close> has the
  sales code as the float 7.0.
\<close>

definition credit7 :: "cell credit_row" where
  "credit7 = \<lparr>credit_code = IntV 7, credit_balance = Some (- 1000), credit_last_invoice_date = None\<rparr>"

definition credit9 :: "cell credit_row" where
  "credit9 = \<lparr>credit_code = IntV 9, credit_balance = Some 250, credit_last_invoice_date = Some 90\<rparr>"

definition sales_line_of :: "cell \<Rightarrow> string \<Rightarrow> string \<Rightarrow> int \<Rightarrow> int \<Rightarrow> cell sales_line" where
  "sales_line_of code invno product qty amt =
     \<lparr>invoice_number = Some invno, delivery_date = Some 100, booker_name = Some ''B'',
      customer_code = code, customer_name = Some ''Shop'', product_name = Some product,
      quantity = Some qty, amount = Some amt, company = Some ''Co'', route = Some ''R1''\<rparr>"

definition margin_a1 :: margin_row where
  "margin_a1 = \<lparr>margin_invoice_number = Some ''A1'', amount_from_margin = Some 800,
     margin_profit = Some 100\<rparr>"

definition src_ok :: sources where
  "src_ok = \<lparr>credit_file = Inr [credit7],
     sales_files = [Inr [sales_line_of (StrV ''7'') ''A1'' ''P1'' 2 500,
                         sales_line_of (StrV ''7'') ''A1'' ''P2'' 1 300]],
     margin_file = Inr [margin_a1]\<rparr>"

definition src_two :: sources where
  "src_two = src_ok\<lparr>credit_file := Inr [credit7, credit9]\<rparr>"

definition src_float :: sources where
  "src_float = src_ok\<lparr>sales_files := [Inr [sales_line_of (FloatV 7) ''A1'' ''P1'' 2 500]]\<rparr>"

text \<open>
  A credit file whose code column holds text cells: "7", "007" and "7" again, with raw
  balances -500, -40 and -1000, beside the two sales lines of customer 7; and the
  sources of \<open>src_ok\<close> with three sales files that hold no row.
\<close>

definition credit_text :: "string \<Rightarrow> int \<Rightarrow> cell credit_row" where
  "credit_text code bal =
     \<lparr>credit_code = StrV code, credit_balance = Some bal, credit_last_invoice_date = None\<rparr>"

definition src_dup :: sources where
  "src_dup = src_ok\<lparr>credit_file :=
     Inr [credit_text ''7'' (- 500), credit_text ''007'' (- 40), credit_text ''7'' (- 1000)]\<rparr>"

definition src_no_sales :: sources where
  "src_no_sales = src_ok\<lparr>sales_files := [Inr [], Inr [], Inr []]\<rparr>"

definition detail_ok :: "detail_row list" where
  "detail_ok =
     [\<lparr>invoice_number = Some ''A1'', delivery_date = Some 100, booker_name = Some ''B'',
       customer_code = ''7'', customer_name = Some ''Shop'', product_name = Some ''P1'',
       quantity = Some 2, amount = Some 500, company = Some ''Co'', route = Some ''R1'',
       profit = 100, balance = 1000, last_invoice_date = None\<rparr>,
      \<lparr>invoice_number = Some ''A1'', delivery_date = Some 100, booker_name = Some ''B'',
       customer_code = ''7'', customer_name = Some ''Shop'', product_name = Some ''P2'',
       quantity = Some 1, amount = Some 300, company = Some ''Co'', route = Some ''R1'',
       profit = 100, balance = 1000, last_invoice_date = None\<rparr>]"

text \<open>Sales lines with the same invoice number and product and different delivery dates.\<close>

definition inv1_early :: "string sales_line" where
  "inv1_early = \<lparr>invoice_number = Some ''INV1'', delivery_date = Some 1, booker_name = Some ''B'',
     customer_code = ''7'', customer_name = Some ''Shop'', product_name = Some ''X'',
     quantity = Some 1, amount = Some 100, company = Some ''Co'', route = Some ''R1''\<rparr>"

definition inv1_late :: "string sales_line" where
  "inv1_late = inv1_early\<lparr>delivery_date := Some 2, amount := Some 120\<rparr>"

definition inv1_latest :: "string sales_line" where
  "inv1_latest = inv1_early\<lparr>delivery_date := Some 3, amount := Some 130\<rparr>"

text \<open>Rows of the table \<open>sales_data\<close>: a line of invoice INV1 of customer 7, carrying the
  invoice's profit 900, and a line of customer 8 without a delivery date.\<close>

definition invoice_line :: "date \<Rightarrow> string \<Rightarrow> detail_row" where
  "invoice_line d p = \<lparr>invoice_number = Some ''INV1'', delivery_date = Some d, booker_name = Some ''B'',
     customer_code = ''7'', customer_name = Some ''Shop'', product_name = Some p,
     quantity = Some 1, amount = Some 1000, company = Some ''Co'', route = Some ''R1'',
     profit = 900, balance = 0, last_invoice_date = None\<rparr>"

definition undated_line :: detail_row where
  "undated_line = \<lparr>invoice_number = Some ''INV2'', delivery_date = None, booker_name = Some ''B'',
     customer_code = ''8'', customer_name = Some ''Kiosk'', product_name = Some ''P1'',
     quantity = Some 1, amount = Some 500, company = Some ''Co'', route = Some ''R1'',
     profit = 50, balance = 0, last_invoice_date = None\<rparr>"

text \<open>A table \<open>sales_data\<close> with three customers, one line each, a query result with
  three customers, and the range of the five sub-scores.\<close>

definition customer_line :: "string \<Rightarrow> date \<Rightarrow> int \<Rightarrow> detail_row" where
  "customer_line code d amt =
     \<lparr>invoice_number = Some (''INV'' @ code), delivery_date = Some d, booker_name = Some ''B'',
      customer_code = code, customer_name = Some ''Shop'', product_name = Some ''P1'',
      quantity = Some 1, amount = Some amt, company = Some ''Co'', route = Some ''R1'',
      profit = 90, balance = 500, last_invoice_date = None\<rparr>"

definition population3 :: "customer_metrics list" where
  "population3 =
     [\<lparr>sc_customer_name = Some ''A'', sc_customer_code = ''1'', recency = Some 3, frequency = 4,
       monetary_value = 9000, total_profit = 900, sc_balance = 500, days_active = Some 30\<rparr>,
      \<lparr>sc_customer_name = Some ''B'', sc_customer_code = ''2'', recency = Some 40, frequency = 1,
       monetary_value = 1000, total_profit = 20, sc_balance = 60000, days_active = Some 0\<rparr>,
      \<lparr>sc_customer_name = Some ''C'', sc_customer_code = ''3'', recency = Some 3, frequency = 1,
       monetary_value = 1000, total_profit = 90, sc_balance = - 10, days_active = None\<rparr>]"

definition three_customers :: "detail_row list" where
  "three_customers = [customer_line ''1'' 7 9000, customer_line ''2'' 2 1000, customer_line ''3'' 5 1000]"

definition scores_in_range :: "'a score_record_scheme \<Rightarrow> bool" where
  "scores_in_range row =
     (1 \<le> R_Score row \<and> R_Score row \<le> 5 \<and> 1 \<le> F_Score row \<and> F_Score row \<le> 5 \<and>
      1 \<le> M_Score row \<and> M_Score row \<le> 5 \<and> 1 \<le> C_Score row \<and> C_Score row \<le> 5 \<and>
      1 \<le> P_Score row \<and> P_Score row \<le> 5)"

text \<open>The definitions unfolded to evaluate the loader and the query on concrete data.\<close>

lemmas loader_defs = reconcile_def load_credit_def load_sales_def standardize_credit_codes_def
  standardize_sales_codes_def immediate_matches_def remove_duplicate_invoices_def
  sort_by_delivery_date_def aggregate_sales_def load_margin_def merge_customer_summary_def
  merge_sales_detailed_def left_join_def drop_duplicates_last_def credit_standardize_def
  sales_standardize_def str_int_def str_nat.simps digit_char_def py_int_def py_strip_def
  is_space_def sum_skipna_def max_skipna_def nunique_skipna_def first_notna_def fillna_def
  sales_line.extend_def Let_def load_clean_and_merge_data_def
  credit7_def sales_line_of_def margin_a1_def src_ok_def

lemmas query_defs = customer_metrics_query_def joined_rows_def group_key_def metrics_of_group_def
  invoice_level_def product_aggregates_def dated_def
  sql_sum_def max_skipna_def min_skipna_def nunique_skipna_def fillna_def Let_def

section \<open>Identity standardization\<close>

text \<open>
  Claim C1 (cross-source identity agreement): a code that arrives as an int, as a float
  or as a numeric string is to get the same identity string on the credit side and on
  the sales side. The two sides are evaluated here. They agree for the int 7 and the
  string "7". For a float they differ, whatever its value \<open>n\<close>: the credit side gives
  \<open>"7"\<close> for 7.0, the sales side keeps the float formatting and gives \<open>"7.0"\<close>. With such
  a sales column no identity matches, and the loader returns \<open>None\<close>.
\<close>

theorem sales_codes_keep_float_format:
  "credit_standardize (IntV 7) = Inr ''7'' \<and> sales_standardize (IntV 7) = ''7'' \<and>
   credit_standardize (StrV ''7'') = Inr ''7'' \<and> sales_standardize (StrV ''7'') = ''7'' \<and>
   credit_standardize (FloatV 7) = Inr ''7'' \<and> sales_standardize (FloatV 7) = ''7.0'' \<and>
   credit_standardize (FloatV n) \<noteq> Inr (sales_standardize (FloatV n)) \<and>
   load_clean_and_merge_data src_float 110 = Inr None"
  by (simp add: loader_defs src_float_def)

section \<open>Profit per invoice\<close>

text \<open>
  Claim C2 (invoice-level profit non-duplication): an invoice with three product lines
  that all carry the profit 900 is to contribute 900 to the total profit of its
  customer, whether or not the lines share a delivery date. The query is evaluated
  here on such an invoice. With one delivery date the total profit is 900. With three
  different delivery dates \<open>SELECT DISTINCT\<close> keeps three rows for the one invoice: the
  frequency (distinct invoice numbers) is 1 and the total profit is 2700.
\<close>

theorem profit_counted_once_per_delivery_date:
  "map total_profit (customer_metrics_query 10
      [invoice_line 1 ''P1'', invoice_line 1 ''P2'', invoice_line 1 ''P3'']) = [900] \<and>
   map frequency (customer_metrics_query 10
      [invoice_line 1 ''P1'', invoice_line 2 ''P2'', invoice_line 3 ''P3'']) = [1] \<and>
   map total_profit (customer_metrics_query 10
      [invoice_line 1 ''P1'', invoice_line 2 ''P2'', invoice_line 3 ''P3'']) = [2700]"
  by (simp add: query_defs invoice_line_def)

section \<open>Abort of the reconciliation\<close>

lemma read_sales_files_None: "read_sales_files files = None \<longleftrightarrow> list_ex isl files"
  by (induction files rule: read_sales_files.induct) simp_all

lemma immediate_matches_zero:
  "immediate_matches credit_df sales_df = 0 \<longleftrightarrow>
     set (map credit_code credit_df) \<inter> set (map customer_code sales_df) = {}"
  by (auto simp: immediate_matches_def filter_empty_conv)

text \<open>
  Claim C3 (error handling). Whenever the credit file or one of the sales files is
  missing or cannot be read, or the standardized credit identities and sales
  identities have no element in common, \<open>load_clean_and_merge_data\<close> returns \<open>None\<close>, and
  \<open>update_database\<close> returns \<open>False\<close> and leaves the database as it was: \<open>to_sql\<close> is not
  run, whatever it would do.
\<close>

theorem reconciliation_failure_aborts:
  assumes "isl (credit_file src) \<or> list_ex isl (sales_files src) \<or>
     (\<exists>credit_raw sales_raw credit_df.
        load_credit src = Some credit_raw \<and> load_sales src = Some sales_raw \<and>
        standardize_credit_codes credit_raw = Inr credit_df \<and>
        set (map credit_code credit_df) \<inter>
          set (map customer_code (standardize_sales_codes sales_raw)) = {})"
  shows "load_clean_and_merge_data src today = Inr None \<and>
         update_database to_sql src today db = Inr (False, db)"
proof -
  have "reconcile src today = Inr None"
    using assms
  proof (elim disjE exE conjE)
    assume "isl (credit_file src)"
    then have "load_credit src = None" by (auto simp: load_credit_def isl_def)
    then show ?thesis by (simp add: reconcile_def)
  next
    assume "list_ex isl (sales_files src)"
    then have "load_sales src = None"
      by (simp add: load_sales_def read_sales_files_None [symmetric])
    then show ?thesis by (simp add: reconcile_def split: option.splits)
  next
    fix credit_raw sales_raw credit_df
    assume "load_credit src = Some credit_raw" "load_sales src = Some sales_raw"
      "standardize_credit_codes credit_raw = Inr credit_df"
      "set (map credit_code credit_df) \<inter>
          set (map customer_code (standardize_sales_codes sales_raw)) = {}"
    then have "load_credit src = Some credit_raw" "load_sales src = Some sales_raw"
      "standardize_credit_codes credit_raw = Inr credit_df"
      "immediate_matches credit_df (standardize_sales_codes sales_raw) = 0"
      by (simp_all only: immediate_matches_zero)
    then show ?thesis by (simp add: reconcile_def Let_def)
  qed
  then have "load_clean_and_merge_data src today = Inr None"
    by (simp add: load_clean_and_merge_data_def)
  then show ?thesis by (simp add: update_database_def)
qed

theorem reconciliation_failure_aborts_witness:
  "update_database to_sql_replace (src_ok\<lparr>credit_file := Inl FileNotFoundError\<rparr>) 110 (Some detail_ok)
     = Inr (False, Some detail_ok) \<and>
   update_database to_sql_replace (src_ok\<lparr>sales_files := [Inl OtherError]\<rparr>) 110 (Some detail_ok)
     = Inr (False, Some detail_ok) \<and>
   update_database to_sql_replace src_float 110 (Some detail_ok) = Inr (False, Some detail_ok)"
proof -
  have "load_credit src_float = Some [credit7\<lparr>credit_balance := Some 1000\<rparr>]"
    by (simp add: loader_defs src_float_def)
  moreover have "load_sales src_float = Some [sales_line_of (FloatV 7) ''A1'' ''P1'' 2 500]"
    by (simp add: loader_defs src_float_def)
  moreover have "standardize_credit_codes [credit7\<lparr>credit_balance := Some 1000\<rparr>] =
      Inr [\<lparr>credit_code = ''7'', credit_balance = Some 1000, credit_last_invoice_date = None\<rparr>]"
    by (simp add: loader_defs src_float_def)
  moreover have "set (map credit_code
        [\<lparr>credit_code = ''7'', credit_balance = Some 1000, credit_last_invoice_date = None\<rparr>])
      \<inter> set (map customer_code
            (standardize_sales_codes [sales_line_of (FloatV 7) ''A1'' ''P1'' 2 500])) = {}"
    by (simp add: loader_defs src_float_def)
  ultimately show ?thesis
    using reconciliation_failure_aborts
        [where src = "src_ok\<lparr>credit_file := Inl FileNotFoundError\<rparr>"
          and to_sql = to_sql_replace and today = 110 and db = "Some detail_ok"]
      reconciliation_failure_aborts
        [where src = "src_ok\<lparr>sales_files := [Inl OtherError]\<rparr>"
          and to_sql = to_sql_replace and today = 110 and db = "Some detail_ok"]
      reconciliation_failure_aborts
        [where src = src_float and to_sql = to_sql_replace and today = 110
          and db = "Some detail_ok"]
    by (simp add: src_ok_def)
qed

section \<open>Cardinality of the customer summary\<close>

lemma left_join_fst:
  assumes "distinct (map rkey right)"
  shows "map fst (left_join lkey rkey left right) = left"
proof -
  have one: "length [r \<leftarrow> right. rkey r = k] \<le> 1" for k
    using assms
  proof (induction right)
    case Nil
    then show ?case by simp
  next
    case (Cons r rs)
    show ?case
    proof (cases "rkey r = k")
      case True
      with Cons.prems have "\<forall>y \<in> set rs. rkey y \<noteq> k"
        by (metis distinct.simps(2) image_eqI list.simps(9) set_map)
      then have "[y \<leftarrow> rs. rkey y = k] = []" by (simp add: filter_empty_conv)
      with True show ?thesis by simp
    next
      case False
      with Cons show ?thesis by simp
    qed
  qed
  have row: "map fst (case [r \<leftarrow> right. rkey r = lkey l] of [] \<Rightarrow> [(l, None)]
                   | ms \<Rightarrow> map (\<lambda>r. (l, Some r)) ms) = [l]" for l
    using one [of "lkey l"] by (cases "[r \<leftarrow> right. rkey r = lkey l]") (auto simp: comp_def)
  show ?thesis
    unfolding left_join_def
    by (induction left) (simp_all add: row del: map_eq_Cons_conv)
qed

lemma aggregate_sales_distinct: "distinct (map agg_customer_code (aggregate_sales sales_df))"
  by (simp add: aggregate_sales_def comp_def Let_def)

lemma merge_customer_summary_codes:
  "map fd_customer_code (merge_customer_summary today credit_df (aggregate_sales sales_df))
     = map credit_code credit_df"
proof -
  let ?j = "left_join credit_code agg_customer_code credit_df (aggregate_sales sales_df)"
  have a: "map fst ?j = credit_df"
    by (rule left_join_fst [OF aggregate_sales_distinct])
  have "map fd_customer_code (merge_customer_summary today credit_df (aggregate_sales sales_df))
      = map credit_code (map fst ?j)"
    by (simp add: merge_customer_summary_def comp_def case_prod_unfold Let_def)
  then show ?thesis by (simp only: a)
qed

lemma reconcile_SomeD:
  assumes "reconcile src today = Inr (Some (final_df, sales_detailed))"
  shows "\<exists>credit_raw sales_raw credit_df.
           load_credit src = Some credit_raw \<and> load_sales src = Some sales_raw \<and>
           standardize_credit_codes credit_raw = Inr credit_df \<and>
           final_df = merge_customer_summary today credit_df
             (aggregate_sales (remove_duplicate_invoices (standardize_sales_codes sales_raw))) \<and>
           sales_detailed = merge_sales_detailed
             (remove_duplicate_invoices (standardize_sales_codes sales_raw)) (load_margin src) credit_df"
  using assms
  by (auto simp: reconcile_def Let_def split: option.splits sum.splits if_splits)

text \<open>
  The merge adds and drops no row: the summary has the rows of the credit table it is
  given, row for row, whatever the sales lines are.
\<close>

lemma summary_follows_roster:
  "length (merge_customer_summary today credit_df (aggregate_sales sales_df)) = length credit_df \<and>
   map fd_customer_code (merge_customer_summary today credit_df (aggregate_sales sales_df))
     = map credit_code credit_df \<and>
   (customer_summary src today = Inr (Some final_df) \<longrightarrow>
      (\<exists>roster. credit_roster src = Inr (Some roster) \<and> length final_df = length roster \<and>
         map fd_customer_code final_df = map credit_code roster))"
proof -
  have a: "map fd_customer_code (merge_customer_summary today credit_df (aggregate_sales sales_df))
     = map credit_code credit_df" for credit_df sales_df
    by (rule merge_customer_summary_codes)
  have b: "length (merge_customer_summary today credit_df (aggregate_sales sales_df)) = length credit_df"
    for credit_df sales_df
    using arg_cong [OF a [of credit_df sales_df], of length] by simp
  have c: "\<exists>roster. credit_roster src = Inr (Some roster) \<and> length final_df = length roster \<and>
         map fd_customer_code final_df = map credit_code roster"
    if "customer_summary src today = Inr (Some final_df)"
  proof -
    from that obtain sales_detailed where
      "reconcile src today = Inr (Some (final_df, sales_detailed))"
      by (cases "reconcile src today") (auto simp: customer_summary_def)
    from reconcile_SomeD [OF this] obtain credit_raw sales_raw credit_df where
      "load_credit src = Some credit_raw" "standardize_credit_codes credit_raw = Inr credit_df"
      "final_df = merge_customer_summary today credit_df
             (aggregate_sales (remove_duplicate_invoices (standardize_sales_codes sales_raw)))"
      by blast
    then show ?thesis using a b by (simp add: credit_roster_def)
  qed
  from a b c show ?thesis by blast
qed

text \<open>
  Claim C4 (credit cardinality invariant). The claim: the customer summary has exactly
  one row per customer of the deduplicated credit roster with a valid identity, for
  every sales input, one with zero rows included. The code does not ensure it. Line 79
  drops the duplicates on the cell of the code column as it was read, before line 159
  turns it into the identity, and nothing drops duplicates afterwards. Of the text
  cells "7", "007" and "7" it keeps "007" and the last "7"; both become the identity
  "7". So the credit table and the summary hold the identity "7" twice, with the
  balances 40 and 1000, and the table returned holds each of the two sales lines of
  customer 7 twice. The comment on line 77 (``Ensure ONE record per customer'') and the
  docstring (``ONE customer_code = ONE record'') say what the claim says. With sales
  files that hold no row, no summary is built: the function returns \<open>None\<close> at line 180.
\<close>

theorem summary_repeats_identity:
  "load_credit src_dup = Some [credit_text ''007'' 40, credit_text ''7'' 1000] \<and>
   map_sum id (map_option (map (\<lambda>r. (credit_code r, credit_balance r)))) (credit_roster src_dup)
     = Inr (Some [(''7'', Some 40), (''7'', Some 1000)]) \<and>
   map_sum id (map_option (map (\<lambda>r. (fd_customer_code r, fd_balance r, fd_total_sales_amount r))))
       (customer_summary src_dup 110)
     = Inr (Some [(''7'', Some 40, 800), (''7'', Some 1000, 800)]) \<and>
   map_sum id (map_option (map (\<lambda>r. (customer_code r, product_name r, balance r))))
       (load_clean_and_merge_data src_dup 110)
     = Inr (Some [(''7'', Some ''P1'', 40), (''7'', Some ''P1'', 1000),
                  (''7'', Some ''P2'', 40), (''7'', Some ''P2'', 1000)]) \<and>
   map_sum id (map_option (map credit_code)) (credit_roster src_no_sales) = Inr (Some [''7'']) \<and>
   customer_summary src_no_sales 110 = Inr None"
  by (simp add: loader_defs customer_summary_def credit_roster_def credit_text_def src_dup_def
        src_no_sales_def)

section \<open>The value returned by the loader\<close>

text \<open>
  Claim C5 as stated (both tables are returned) does not hold: the value returned for
  the scenario is the transaction-detail table alone, and the same value is returned
  for the roster with a second customer, although the customer summaries of the two
  runs differ. The summary is not part of the output.
\<close>

theorem summary_not_returned_counterexample:
  "customer_summary src_ok 110 \<noteq> customer_summary src_two 110 \<and>
   load_clean_and_merge_data src_ok 110 = Inr (Some detail_ok) \<and>
   load_clean_and_merge_data src_two 110 = Inr (Some detail_ok)"
  by (simp add: loader_defs customer_summary_def src_two_def credit9_def detail_ok_def)

text \<open>
  Claim C5, amended. On every successful run the loader has built both tables, and
  the value it returns is the transaction-detail table, and only that: the sales lines
  after deduplication, each with the profit of its invoice and the balance and last
  invoice date of its customer.
\<close>

theorem returns_transaction_detail_only:
  assumes "load_clean_and_merge_data src today = Inr (Some sales_detailed)"
  shows "(\<exists>final_df. reconcile src today = Inr (Some (final_df, sales_detailed))) \<and>
    (\<exists>credit_raw sales_raw credit_df.
       load_credit src = Some credit_raw \<and> load_sales src = Some sales_raw \<and>
       standardize_credit_codes credit_raw = Inr credit_df \<and>
       sales_detailed = merge_sales_detailed
         (remove_duplicate_invoices (standardize_sales_codes sales_raw)) (load_margin src) credit_df)"
proof -
  from assms obtain final_df where r: "reconcile src today = Inr (Some (final_df, sales_detailed))"
    by (cases "reconcile src today") (auto simp: load_clean_and_merge_data_def)
  from reconcile_SomeD [OF r] r show ?thesis by blast
qed

theorem returns_transaction_detail_only_witness:
  "load_clean_and_merge_data src_ok 110 = Inr (Some detail_ok) \<and>
   (\<exists>final_df. reconcile src_ok 110 = Inr (Some (final_df, detail_ok)))"
proof -
  have l: "load_clean_and_merge_data src_ok 110 = Inr (Some detail_ok)"
    by (simp add: loader_defs detail_ok_def)
  from returns_transaction_detail_only [OF l] l show ?thesis by blast
qed

section \<open>Deduplication of the sales lines\<close>

text \<open>
  Claim C6 as stated (of every pair of lines with the same invoice number and product
  and different delivery dates exactly one is kept, the later one) does not hold when
  a third line with the same key is later still: of the pair dated 1 and 2 none is
  kept, the line dated 3 is.
\<close>

theorem dedup_pair_counterexample:
  "remove_duplicate_invoices [inv1_early, inv1_late, inv1_latest] = [inv1_latest] \<and>
   inv1_early \<notin> set (remove_duplicate_invoices [inv1_early, inv1_late, inv1_latest]) \<and>
   inv1_late \<notin> set (remove_duplicate_invoices [inv1_early, inv1_late, inv1_latest])"
  by (simp add: inv1_early_def inv1_late_def inv1_latest_def remove_duplicate_invoices_def
      sort_by_delivery_date_def)

lemma drop_duplicates_first_filter:
  "[r \<leftarrow> drop_duplicates_first key xs. key r = k] =
     (case [r \<leftarrow> xs. key r = k] of [] \<Rightarrow> [] | z # zs \<Rightarrow> [z])"
proof (induction key xs rule: drop_duplicates_first.induct)
  case (1 key)
  then show ?case by simp
next
  case (2 key x xs)
  show ?case
  proof (cases "key x = k")
    case True
    have "[r \<leftarrow> [y \<leftarrow> xs. key y \<noteq> key x]. key r = k] = []"
      using True by (simp add: filter_empty_conv)
    with 2 True show ?thesis by simp
  next
    case False
    have "[r \<leftarrow> [y \<leftarrow> xs. key y \<noteq> key x]. key r = k] = [r \<leftarrow> xs. key r = k]"
      using False by (auto intro: filter_cong)
    with 2 False show ?thesis by simp
  qed
qed

lemma set_sort_by_delivery_date: "set (sort_by_delivery_date b df) = set df"
  by (auto simp: sort_by_delivery_date_def)

lemma filter_sort_by_delivery_date:
  "length [r \<leftarrow> sort_by_delivery_date b df. P r] = length [r \<leftarrow> df. P r]"
proof -
  have "length [r \<leftarrow> sort_by_delivery_date b df. P r] =
        length [r \<leftarrow> [r \<leftarrow> df. P r]. delivery_date r \<noteq> None] +
        length [r \<leftarrow> [r \<leftarrow> df. P r]. \<not> delivery_date r \<noteq> None]"
    by (simp add: sort_by_delivery_date_def filter_sort conj_commute)
  also have "\<dots> = length [r \<leftarrow> df. P r]"
    by (rule sum_length_filter_compl)
  finally show ?thesis .
qed

lemma hd_sort_key_least:
  assumes "G \<noteq> []"
  shows "hd (sort_key f G) \<in> set G \<and> (\<forall>g \<in> set G. f (hd (sort_key f G)) \<le> f g)"
proof -
  from assms have ne: "sort_key f G \<noteq> []" by (metis length_0_conv length_sort)
  then obtain z zs where z: "sort_key f G = z # zs" by (cases "sort_key f G") auto
  have "sorted (map f (sort_key f G))" by (rule sorted_sort_key)
  with z have "\<forall>g \<in> set (z # zs). f z \<le> f g" by auto
  moreover have "set (z # zs) = set G" using z by (metis set_sort)
  ultimately show ?thesis using z by auto
qed

lemma first_of_group_is_latest:
  assumes "r2 \<in> set df" "delivery_date r2 = Some d2"
  shows "\<exists>z zs. [r \<leftarrow> sort_by_delivery_date False df. key r = key r2] = z # zs \<and>
           z \<in> set df \<and> key z = key r2 \<and>
           (\<exists>dz. delivery_date z = Some dz \<and>
              (\<forall>r \<in> set df. key r = key r2 \<longrightarrow> (\<forall>d. delivery_date r = Some d \<longrightarrow> d \<le> dz)))"
proof -
  define G where "G = [r \<leftarrow> [r \<leftarrow> df. delivery_date r \<noteq> None]. key r = key r2]"
  define f where "f = (\<lambda>r :: string sales_line. (if False then 1 else - 1) * the (delivery_date r))"
  from assms have r2G: "r2 \<in> set G" by (simp add: G_def)
  then have ne: "G \<noteq> []" by auto
  have split: "[r \<leftarrow> sort_by_delivery_date False df. key r = key r2] =
        sort_key f G @ [r \<leftarrow> [r \<leftarrow> df. delivery_date r = None]. key r = key r2]"
    by (simp add: sort_by_delivery_date_def filter_sort G_def f_def)
  from ne have "sort_key f G \<noteq> []" by (metis length_0_conv length_sort)
  then obtain z zs where z: "sort_key f G = z # zs" by (cases "sort_key f G") auto
  then have hd: "hd (sort_key f G) = z" by simp
  from hd_sort_key_least [OF ne, of f] hd
  have zG: "z \<in> set G" and least: "\<forall>g \<in> set G. f z \<le> f g" by auto
  from zG obtain dz where dz: "delivery_date z = Some dz" by (auto simp: G_def)
  have "d \<le> dz" if "r \<in> set df" "key r = key r2" "delivery_date r = Some d" for r d
  proof -
    from that have "r \<in> set G" by (simp add: G_def)
    with least have "f z \<le> f r" by blast
    with dz that(3) show ?thesis by (simp add: f_def)
  qed
  with zG dz split z show ?thesis by (auto simp: G_def)
qed

text \<open>
  Claim C6, amended. Of two sales lines with the same invoice number and product and
  different delivery dates, deduplication never keeps the earlier one. It keeps
  exactly one line with that key, one whose delivery date is the latest of all lines
  with the key; so the later line of the pair is the one kept whenever no other line
  with the key is dated as late.
\<close>

theorem dedup_keeps_later_row:
  assumes "r1 \<in> set sales_df" "r2 \<in> set sales_df"
    and "invoice_number r1 = invoice_number r2" "product_name r1 = product_name r2"
    and "delivery_date r1 = Some d1" "delivery_date r2 = Some d2" "d1 < d2"
  shows "r1 \<notin> set (remove_duplicate_invoices sales_df) \<and>
    (\<exists>kept d. [r \<leftarrow> remove_duplicate_invoices sales_df.
                  (invoice_number r, product_name r) = (invoice_number r2, product_name r2)] = [kept]
        \<and> kept \<in> set sales_df \<and> delivery_date kept = Some d \<and> d2 \<le> d
        \<and> (\<forall>r \<in> set sales_df.
              (invoice_number r, product_name r) = (invoice_number r2, product_name r2) \<longrightarrow>
              (\<forall>d'. delivery_date r = Some d' \<longrightarrow> d' \<le> d))) \<and>
    ((\<forall>r \<in> set sales_df. invoice_number r = invoice_number r2 \<and> product_name r = product_name r2
          \<and> r \<noteq> r2 \<longrightarrow> (\<forall>d. delivery_date r = Some d \<longrightarrow> d < d2))
       \<longrightarrow> r2 \<in> set (remove_duplicate_invoices sales_df))"
proof -
  let ?key = "\<lambda>r :: string sales_line. (invoice_number r, product_name r)"
  let ?D = "sort_by_delivery_date False sales_df"
  let ?E = "drop_duplicates_first ?key ?D"
  let ?F = "remove_duplicate_invoices sales_df"
  have F: "?F = sort_by_delivery_date True ?E" by (simp add: remove_duplicate_invoices_def)
  from first_of_group_is_latest [OF assms(2,6), of ?key]
  obtain z zs dz where grp: "[r \<leftarrow> ?D. ?key r = ?key r2] = z # zs"
    and z: "z \<in> set sales_df" "?key z = ?key r2" "delivery_date z = Some dz"
    and mx: "\<forall>r \<in> set sales_df. ?key r = ?key r2 \<longrightarrow> (\<forall>d. delivery_date r = Some d \<longrightarrow> d \<le> dz)"
    by blast
  have E: "[r \<leftarrow> ?E. ?key r = ?key r2] = [z]"
    by (simp only: drop_duplicates_first_filter grp list.case)
  have lenF: "length [r \<leftarrow> ?F. ?key r = ?key r2] = 1"
    unfolding F by (simp only: filter_sort_by_delivery_date E) simp
  have "set [r \<leftarrow> ?F. ?key r = ?key r2] = set [r \<leftarrow> ?E. ?key r = ?key r2]"
    unfolding F by (simp only: set_filter set_sort_by_delivery_date)
  then have setF: "set [r \<leftarrow> ?F. ?key r = ?key r2] = {z}" by (simp only: E) simp
  from lenF obtain y where y: "[r \<leftarrow> ?F. ?key r = ?key r2] = [y]"
    by (cases "[r \<leftarrow> ?F. ?key r = ?key r2]") auto
  have "{y} = {z}" using setF unfolding y by simp
  with y have Fz: "[r \<leftarrow> ?F. ?key r = ?key r2] = [z]" by simp
  from mx assms(2,6) have d2dz: "d2 \<le> dz" by blast
  have not1: "r1 \<notin> set ?F"
  proof
    assume "r1 \<in> set ?F"
    with assms(3,4) have "r1 \<in> set [r \<leftarrow> ?F. ?key r = ?key r2]" by simp
    with Fz have "r1 = z" by simp
    with z(3) assms(5,7) d2dz show False by simp
  qed
  have only: "r2 \<in> set ?F"
    if h: "\<forall>r \<in> set sales_df. invoice_number r = invoice_number r2 \<and> product_name r = product_name r2
          \<and> r \<noteq> r2 \<longrightarrow> (\<forall>d. delivery_date r = Some d \<longrightarrow> d < d2)"
  proof -
    have "z = r2"
    proof (rule ccontr)
      assume "z \<noteq> r2"
      with h z have "dz < d2" by auto
      with d2dz show False by simp
    qed
    moreover have "z \<in> set [r \<leftarrow> ?F. ?key r = ?key r2]" by (simp only: Fz) simp
    ultimately show ?thesis by simp
  qed
  have "\<exists>kept d. [r \<leftarrow> ?F. ?key r = ?key r2] = [kept]
        \<and> kept \<in> set sales_df \<and> delivery_date kept = Some d \<and> d2 \<le> d
        \<and> (\<forall>r \<in> set sales_df. ?key r = ?key r2 \<longrightarrow> (\<forall>d'. delivery_date r = Some d' \<longrightarrow> d' \<le> d))"
    using Fz z(1,3) d2dz mx by blast
  with not1 only show ?thesis by blast
qed

theorem dedup_keeps_later_row_witness:
  "inv1_early \<notin> set (remove_duplicate_invoices [inv1_early, inv1_late]) \<and>
   inv1_late \<in> set (remove_duplicate_invoices [inv1_early, inv1_late]) \<and>
   remove_duplicate_invoices [inv1_early, inv1_late] = [inv1_late]"
  using dedup_keeps_later_row [of inv1_early "[inv1_early, inv1_late]" inv1_late 1 2]
  by (simp add: inv1_early_def inv1_late_def remove_duplicate_invoices_def
      sort_by_delivery_date_def)

section \<open>Days sales outstanding\<close>

lemma clip_bounds: "lo \<le> hi \<Longrightarrow> lo \<le> clip lo hi x \<and> clip lo hi x \<le> hi"
  by (simp add: clip_def min_def max_def)

lemma clean_days_active_ge: "7 \<le> clean_days_active a"
  by (simp add: clean_days_active_def VISIT_CYCLE_DAYS_def)

lemma weekly_sales_defined:
  "weekly_sales_of m a = Some (of_int m / of_int (clean_days_active a) * 7)"
proof -
  have "clean_days_active a \<noteq> 0" using clean_days_active_ge [of a] by arith
  then show ?thesis
    by (simp add: weekly_sales_of_def np_div_def np_times_def VISIT_CYCLE_DAYS_def)
qed

lemma dso_of_pos:
  "0 < w \<Longrightarrow> 0 < bal \<Longrightarrow> dso_of bal (Some w) = clip 0 999 (of_int bal / w * 7)"
  by (simp add: dso_of_def Let_def np_gt0_def np_div_opt_def np_div_def np_times_def
      VISIT_CYCLE_DAYS_def fillna_def)

lemma dso_of_zero: "bal \<le> 0 \<or> w = 0 \<Longrightarrow> dso_of bal (Some w) = 0"
  by (auto simp: dso_of_def Let_def np_gt0_def clip_def fillna_def)

lemma dso_of_range: "0 \<le> dso_of bal wk \<and> dso_of bal wk \<le> 999"
  using clip_bounds [of 0 999] by (simp add: dso_of_def Let_def)

lemma np_round_bounds:
  assumes "0 \<le> x" "x \<le> 999"
  shows "0 \<le> np_round x \<and> np_round x \<le> 999"
proof -
  define f where "f = \<lfloor>x\<rfloor>"
  have f0: "0 \<le> f" using assms(1) by (simp add: f_def)
  have f1: "f \<le> 999" using assms(2) by (simp add: f_def floor_le_iff)
  have up: "f + 1 \<le> 999" if "0 < x - of_int f"
  proof -
    from that have "of_int f < x" by simp
    with assms(2) have "of_int f < (999 :: rat)" by simp
    then have "f < 999" by simp
    then show ?thesis by simp
  qed
  show ?thesis
    using f0 f1 up unfolding np_round_def Let_def f_def [symmetric]
    by (auto simp: not_less)
qed

lemma scored_row_dso:
  "dso (score_row c r f mo) =
     dso_of (sc_balance c) (weekly_sales_of (monetary_value c) (days_active c)) \<and>
   C_Score (score_row c r f mo) = calculate_credit_score (sc_balance c) (dso (score_row c r f mo)) \<and>
   0 \<le> dso (finish_row (score_row c r f mo)) \<and> dso (finish_row (score_row c r f mo)) \<le> 999"
  using np_round_bounds [OF dso_of_range [THEN conjunct1] dso_of_range [THEN conjunct2]]
  by (simp add: score_row_def finish_row_def Let_def score_record.defs)

text \<open>
  Claim C7 (DSO zero-division guard). The DSO computation never divides by zero: the
  divisor \<open>days_active\<close> is at least 7, so the weekly sales rate \<open>w\<close> is always a number;
  the DSO lies in [0, 999]; it is \<open>balance / w * 7\<close> clamped to that range when \<open>w > 0\<close>
  and \<open>balance > 0\<close>; and it is 0 whenever \<open>balance \<le> 0\<close> or \<open>w = 0\<close>, in particular for
  a monetary value of 0 with a positive balance. This is the DSO of every scored row
  \<open>c\<close>, the one its credit score is computed from, and the rounded DSO of the row
  that is returned lies in [0, 999] as well.
\<close>

theorem dso_zero_division_guard:
  "(let w = of_int m / of_int (clean_days_active a) * 7 in
     clean_days_active a \<noteq> 0 \<and>
     weekly_sales_of m a = Some w \<and>
     0 \<le> dso_of bal (weekly_sales_of m a) \<and> dso_of bal (weekly_sales_of m a) \<le> 999 \<and>
     (0 < w \<and> 0 < bal \<longrightarrow>
        dso_of bal (weekly_sales_of m a) = clip 0 999 (of_int bal / w * 7)) \<and>
     (bal \<le> 0 \<or> w = 0 \<longrightarrow> dso_of bal (weekly_sales_of m a) = 0) \<and>
     (m = 0 \<longrightarrow> dso_of bal (weekly_sales_of m a) = 0)) \<and>
   dso (score_row c r f mo) =
     dso_of (sc_balance c) (weekly_sales_of (monetary_value c) (days_active c)) \<and>
   C_Score (score_row c r f mo) = calculate_credit_score (sc_balance c) (dso (score_row c r f mo)) \<and>
   0 \<le> dso (finish_row (score_row c r f mo)) \<and> dso (finish_row (score_row c r f mo)) \<le> 999"
proof -
  define w :: rat where "w = of_int m / of_int (clean_days_active a) * 7"
  have nz: "clean_days_active a \<noteq> 0" using clean_days_active_ge [of a] by arith
  have wk: "weekly_sales_of m a = Some w"
    by (simp add: w_def weekly_sales_defined)
  have rng: "0 \<le> dso_of bal (Some w) \<and> dso_of bal (Some w) \<le> 999"
    by (rule dso_of_range)
  have pos: "0 < w \<and> 0 < bal \<longrightarrow> dso_of bal (Some w) = clip 0 999 (of_int bal / w * 7)"
    by (simp add: dso_of_pos)
  have zero: "bal \<le> 0 \<or> w = 0 \<longrightarrow> dso_of bal (Some w) = 0"
    using dso_of_zero by blast
  have "m = 0 \<longrightarrow> w = 0" by (simp add: w_def)
  with zero have m0: "m = 0 \<longrightarrow> dso_of bal (Some w) = 0" by blast
  have "let w = of_int m / of_int (clean_days_active a) * 7 in
     clean_days_active a \<noteq> 0 \<and>
     weekly_sales_of m a = Some w \<and>
     0 \<le> dso_of bal (weekly_sales_of m a) \<and> dso_of bal (weekly_sales_of m a) \<le> 999 \<and>
     (0 < w \<and> 0 < bal \<longrightarrow>
        dso_of bal (weekly_sales_of m a) = clip 0 999 (of_int bal / w * 7)) \<and>
     (bal \<le> 0 \<or> w = 0 \<longrightarrow> dso_of bal (weekly_sales_of m a) = 0) \<and>
     (m = 0 \<longrightarrow> dso_of bal (weekly_sales_of m a) = 0)"
    unfolding Let_def w_def [symmetric] wk
    using nz rng pos zero m0 by blast
  with scored_row_dso [of c r f mo] show ?thesis by blast
qed

theorem dso_zero_division_guard_witness:
  "weekly_sales_of 0 (Some 0) = Some 0 \<and> dso_of 500 (weekly_sales_of 0 (Some 0)) = 0 \<and>
   weekly_sales_of 700 None = Some 700 \<and> dso_of 1400 (weekly_sales_of 700 None) = 14 \<and>
   dso_of (- 5) (weekly_sales_of 700 None) = 0"
  using dso_zero_division_guard [of 0 "Some 0" 500]
    dso_zero_division_guard [of 700 None 1400]
    dso_zero_division_guard [of 700 None "- 5"]
  by (simp add: Let_def clean_days_active_def VISIT_CYCLE_DAYS_def clip_def
      weekly_sales_of_def np_div_def np_times_def)

section \<open>Quintile scores on small populations\<close>

lemma drop_duplicates_first_distinct:
  "distinct (map key xs) \<Longrightarrow> drop_duplicates_first key xs = xs"
proof (induction xs)
  case Nil
  then show ?case by simp
next
  case (Cons x xs)
  from Cons.prems have "key x \<notin> set (map key xs)" by simp
  then have "\<forall>y \<in> set xs. key y \<noteq> key x" by (metis image_eqI set_map)
  then have "[y \<leftarrow> xs. key y \<noteq> key x] = xs"
    by (simp add: filter_id_conv)
  with Cons show ?case by simp
qed

lemma length_np_linspace: "length (np_linspace a b n) = Suc n"
  by (simp add: np_linspace_def)

lemma hd_np_linspace: "hd (np_linspace a b n) = a"
  by (simp add: np_linspace_def upt_conv_Cons del: upt_Suc)

lemma last_np_linspace: "0 < n \<Longrightarrow> last (np_linspace a b n) = b"
  by (simp add: np_linspace_def)

lemma np_linspace_tl_gt:
  assumes "a < b" "v \<in> set (tl (np_linspace a b n))"
  shows "a < v"
proof -
  have "tl (np_linspace a b n) = map (\<lambda>i. a + (b - a) * of_nat i / of_nat n) [Suc 0..<Suc n]"
    by (simp add: np_linspace_def upt_conv_Cons map_tl [symmetric] del: upt_Suc)
  with assms(2) obtain i where i: "Suc 0 \<le> i" "i < Suc n"
    and v: "v = a + (b - a) * of_nat i / of_nat n"
    by auto
  from i have "0 < n" by simp
  with i assms(1) have "0 < (b - a) * of_nat i / of_nat n" by simp
  with v show ?thesis by simp
qed

lemma distinct_np_linspace: "a \<noteq> b \<Longrightarrow> 0 < n \<Longrightarrow> distinct (np_linspace a b n)"
  by (auto simp: np_linspace_def distinct_map inj_on_def simp del: upt_Suc)

lemma nbins_to_bins_ok:
  assumes "x \<noteq> []" "1 \<le> n"
  shows "\<exists>bins. nbins_to_bins x n = Inr bins \<and> length bins = Suc n \<and> distinct bins \<and>
           (\<forall>v \<in> set x. hd bins < v \<and> v \<le> last bins)"
proof -
  define mn where "mn = Min (set x)"
  define mx where "mx = Max (set x)"
  have bnd: "mn \<le> v \<and> v \<le> mx" if "v \<in> set x" for v
    using that by (simp add: mn_def mx_def)
  from assms(2) have n0: "0 < n" by simp
  show ?thesis
  proof (cases "mn = mx")
    case True
    define lo where "lo = mn - (if mn \<noteq> 0 then \<bar>mn\<bar> / 1000 else 1 / 1000)"
    define hi where "hi = mx + (if mx \<noteq> 0 then \<bar>mx\<bar> / 1000 else 1 / 1000)"
    have lo: "lo < mn" by (simp add: lo_def)
    have hi: "mx < hi" by (simp add: hi_def)
    have eq: "nbins_to_bins x n = Inr (np_linspace lo hi n)"
      using assms True by (simp add: nbins_to_bins_def Let_def mn_def mx_def lo_def hi_def)
    have "lo \<noteq> hi" using lo hi True by simp
    then have "distinct (np_linspace lo hi n)" using n0 by (rule distinct_np_linspace)
    moreover have "\<forall>v \<in> set x. hd (np_linspace lo hi n) < v \<and> v \<le> last (np_linspace lo hi n)"
      using bnd lo hi n0 by (fastforce simp: hd_np_linspace last_np_linspace)
    ultimately show ?thesis using eq by (simp add: length_np_linspace)
  next
    case False
    with bnd assms(1) have lt: "mn < mx"
      by (metis last_in_set order.trans order_less_le)
    define L where "L = np_linspace mn mx n"
    define adj where "adj = (mx - mn) / 1000"
    have adj: "0 < adj" using lt by (simp add: adj_def)
    have eq: "nbins_to_bins x n = Inr ((hd L - adj) # tl L)"
      using assms False by (simp add: nbins_to_bins_def Let_def mn_def mx_def L_def adj_def)
    have len: "length L = Suc n" by (simp add: L_def length_np_linspace)
    with n0 have tl_ne: "tl L \<noteq> []" by (cases L) auto
    have hdL: "hd L = mn" by (simp add: L_def hd_np_linspace)
    have "last (tl L) = last L" using tl_ne by (simp add: last_tl)
    then have lastL: "last ((hd L - adj) # tl L) = mx"
      using tl_ne n0 by (simp add: L_def last_np_linspace)
    have "distinct L" using lt n0 by (simp add: L_def distinct_np_linspace)
    then have d1: "distinct (tl L)" by (rule distinct_tl)
    have "\<forall>v \<in> set (tl L). mn < v" using lt by (auto simp: L_def dest: np_linspace_tl_gt)
    then have d2: "hd L - adj \<notin> set (tl L)" using adj hdL by fastforce
    have "\<forall>v \<in> set x. hd ((hd L - adj) # tl L) < v \<and> v \<le> last ((hd L - adj) # tl L)"
      unfolding lastL using bnd adj hdL by fastforce
    with d1 d2 eq len show ?thesis by simp
  qed
qed

lemma searchsorted_left_bounds:
  assumes "bins \<noteq> []" "hd bins < v" "v \<le> last bins"
  shows "1 \<le> searchsorted_left bins v \<and> searchsorted_left bins v < length bins"
proof -
  from assms(1,2) have "1 \<le> searchsorted_left bins v"
    by (cases bins) (simp_all add: searchsorted_left_def)
  moreover have "searchsorted_left bins v < length bins"
  proof (rule ccontr)
    assume "\<not> searchsorted_left bins v < length bins"
    then have "length (takeWhile (\<lambda>b. b < v) bins) = length bins"
      using length_takeWhile_le [of "\<lambda>b. b < v" bins] by (simp add: searchsorted_left_def)
    then have "takeWhile (\<lambda>b. b < v) bins = bins"
      by (metis takeWhile_eq_take take_all order_refl)
    then have "\<forall>b \<in> set bins. b < v" by (simp add: takeWhile_eq_all_conv)
    with assms(1) have "last bins < v" by simp
    with assms(3) show False by simp
  qed
  ultimately show ?thesis by simp
qed

lemma bins_to_cuts_labels:
  assumes "bins_to_cuts x bins0 labels d = Inr cs"
  shows "length cs = length x \<and> (\<forall>c \<in> set cs. \<forall>l. c = Some l \<longrightarrow> l \<in> set labels)"
proof -
  define bins where "bins =
     (if length (drop_duplicates_first id bins0) < length bins0 \<and> length bins0 \<noteq> 2
      then drop_duplicates_first id bins0 else bins0)"
  define ids where "ids = (\<lambda>v. if bins \<noteq> [] \<and> v = hd bins then 1 else searchsorted_left bins v)"
  from assms have len: "length labels = length bins - 1"
    and cs: "cs = map (\<lambda>v. if ids v = length bins \<or> ids v = 0 then None
                             else Some (labels ! (ids v - 1))) x"
    by (auto simp: bins_to_cuts_def Let_def bins_def ids_def split: if_splits)
  have "ids v \<le> length bins" for v
    using length_takeWhile_le [of "\<lambda>b. b < v" bins]
    by (cases bins) (auto simp: ids_def searchsorted_left_def)
  then have "labels ! (ids v - 1) \<in> set labels" if "ids v \<noteq> length bins" "ids v \<noteq> 0" for v
    using that len
    by (metis One_nat_def diff_less_mono le_neq_implies_less less_Suc0 not_less nth_mem)
  with cs show ?thesis by auto
qed

lemma pd_cut_total:
  assumes "x \<noteq> []" "1 \<le> n" "length labels = n" "distinct labels"
  shows "\<exists>ys. pd_cut x n labels = Inr ys \<and> length ys = length x \<and> set ys \<subseteq> set labels"
proof -
  from nbins_to_bins_ok [OF assms(1,2)] obtain bins where
    b: "nbins_to_bins x n = Inr bins" "length bins = Suc n" "distinct bins"
       "\<forall>v \<in> set x. hd bins < v \<and> v \<le> last bins"
    by blast
  from b(2) have ne: "bins \<noteq> []" by auto
  from b(3) have u: "drop_duplicates_first id bins = bins"
    by (simp add: drop_duplicates_first_distinct)
  then obtain cs where cs: "bins_to_cuts x bins labels False = Inr cs"
    using assms(3,4) b(2) by (simp add: bins_to_cuts_def Let_def)
  have nonone: "None \<notin> set cs"
  proof
    assume "None \<in> set cs"
    with cs u assms(3,4) b(2)
    obtain v where v: "v \<in> set x"
      and bad: "(if v = hd bins then 1 else searchsorted_left bins v) = length bins
                \<or> (if v = hd bins then 1 else searchsorted_left bins v) = 0"
      using ne by (auto simp: bins_to_cuts_def Let_def split: if_splits)
    from v b(4) have "hd bins < v" "v \<le> last bins" by auto
    with searchsorted_left_bounds [OF ne, of v] bad show False by auto
  qed
  then have a: "labels_astype_int cs = Inr (map the cs)" by (simp add: labels_astype_int_def)
  from bins_to_cuts_labels [OF cs] nonone have "set (map the cs) \<subseteq> set labels"
    by (auto simp: subset_iff) (metis option.exhaust_sel)
  moreover from bins_to_cuts_labels [OF cs] have "length (map the cs) = length x" by simp
  ultimately show ?thesis using b(1) cs a by (simp add: pd_cut_def)
qed

lemma pd_qcut_result:
  assumes "pd_qcut x q labels = Inr ys"
  shows "length ys = length x \<and> set ys \<subseteq> set labels"
proof -
  from assms obtain cs where
    cs: "bins_to_cuts x (map (quantile x) (np_linspace 0 1 q)) labels True = Inr cs"
    and ys: "labels_astype_int cs = Inr ys"
    by (auto simp: pd_qcut_def split: sum.splits)
  from ys have nonone: "None \<notin> set cs" and ys': "ys = map the cs"
    by (auto simp: labels_astype_int_def split: if_splits)
  from bins_to_cuts_labels [OF cs] nonone ys' show ?thesis
    by (auto simp: subset_iff) (metis option.exhaust_sel)
qed

lemma pd_qcut_error: "pd_qcut x q labels = Inl e \<Longrightarrow> e = ValueError"
  by (auto simp: pd_qcut_def bins_to_cuts_def labels_astype_int_def Let_def
      split: sum.splits if_splits)

lemma rank_first_nonempty: "series \<noteq> [] \<Longrightarrow> rank_first series \<noteq> []"
  by (simp add: rank_first_def)

lemma length_rank_first: "length (rank_first series) = length series"
  by (simp add: rank_first_def)

lemma nunique_pos: "series \<noteq> [] \<Longrightarrow> 1 \<le> nunique series"
  by (simp add: nunique_def Suc_le_eq)

lemma py_range_up: "1 \<le> n \<Longrightarrow> py_range 1 n 1 = map (\<lambda>i. 1 + int i) [0..<nat (n - 1)]"
  by (simp add: py_range_def)

lemma pd_cut_scores:
  assumes "x \<noteq> []" "1 \<le> n" "length labels = n" "distinct labels"
    and "\<forall>l \<in> set labels. 1 \<le> l \<and> l \<le> 5"
  shows "\<exists>ys. pd_cut x n labels = Inr ys \<and> length ys = length x \<and>
           (\<forall>s \<in> set ys. 1 \<le> s \<and> s \<le> 5)"
  using pd_cut_total [OF assms(1-4)] assms(5) by blast

lemma pd_qcut_scores:
  assumes "pd_qcut x q labels = Inr ys" "\<forall>l \<in> set labels. 1 \<le> l \<and> l \<le> 5"
  shows "length ys = length x \<and> (\<forall>s \<in> set ys. 1 \<le> s \<and> s \<le> 5)"
  using pd_qcut_result [OF assms(1)] assms(2) by blast

lemma create_score_reverse_small:
  "nunique series < 5 \<Longrightarrow> create_score series True = Inl TypeError"
  by (simp add: create_score_def py_min_int_def)

lemma create_score_total:
  assumes "series \<noteq> []" "reverse \<longrightarrow> 5 \<le> nunique series"
  shows "\<exists>scores. create_score series reverse = Inr scores \<and> length scores = length series \<and>
           (\<forall>s \<in> set scores. 1 \<le> s \<and> s \<le> 5)"
proof -
  define n where "n = nunique series"
  define r where "r = rank_first series"
  have r: "r \<noteq> []" "length r = length series"
    using assms(1) by (simp_all add: r_def rank_first_nonempty length_rank_first)
  have n1: "1 \<le> n" using nunique_pos [OF assms(1)] by (simp add: n_def)
  have five_down: "\<exists>ys. pd_cut r 5 [5, 4, 3, 2, 1] = Inr ys \<and> length ys = length series \<and>
      (\<forall>s \<in> set ys. 1 \<le> s \<and> s \<le> 5)"
    using pd_cut_scores [of r 5 "[5, 4, 3, 2, 1]"] r by simp
  have five_up: "\<exists>ys. pd_cut r 5 [1, 2, 3, 4, 5] = Inr ys \<and> length ys = length series \<and>
      (\<forall>s \<in> set ys. 1 \<le> s \<and> s \<le> 5)"
    using pd_cut_scores [of r 5 "[1, 2, 3, 4, 5]"] r by simp
  show ?thesis
  proof (cases "n < 5")
    case True
    with assms(2) have nr: "\<not> reverse" by (simp add: n_def)
    from True have mn: "min n 5 = n" "min (n + 1) 6 = n + 1" by simp_all
    define up where "up = py_range 1 (int (n + 1)) 1"
    have up: "up = map (\<lambda>i. 1 + int i) [0..<n]"
      by (simp add: up_def py_range_up)
    have "\<exists>ys. pd_cut r n up = Inr ys \<and> length ys = length r \<and>
        (\<forall>s \<in> set ys. 1 \<le> s \<and> s \<le> 5)"
      using r(1) n1 True by (intro pd_cut_scores) (auto simp: up distinct_map inj_on_def)
    then show ?thesis
      using True r(2) nr
      unfolding create_score_def Let_def n_def [symmetric] r_def [symmetric] mn
        up_def [symmetric]
      by simp
  next
    case False
    define attempt where "attempt =
      (if reverse then pd_qcut series 5 [5, 4, 3, 2, 1] else pd_qcut r 5 [1, 2, 3, 4, 5])"
    define fallback where "fallback =
      (if reverse then pd_cut r 5 [5, 4, 3, 2, 1] else pd_cut r 5 [1, 2, 3, 4, 5])"
    have cs: "create_score series reverse =
        (case attempt of Inr scores \<Rightarrow> Inr scores | Inl ValueError \<Rightarrow> fallback | Inl e \<Rightarrow> Inl e)"
      using False
      unfolding create_score_def Let_def n_def [symmetric] r_def [symmetric] attempt_def fallback_def
      by simp
    have fb: "\<exists>ys. fallback = Inr ys \<and> length ys = length series \<and>
        (\<forall>s \<in> set ys. 1 \<le> s \<and> s \<le> 5)"
      using five_down five_up by (simp add: fallback_def)
    show ?thesis
    proof (cases attempt)
      case (Inl e)
      then have "e = ValueError"
        by (auto simp: attempt_def dest: pd_qcut_error split: if_splits)
      with Inl fb show ?thesis by (simp add: cs)
    next
      case (Inr ys)
      then have "length ys = length series \<and> (\<forall>s \<in> set ys. 1 \<le> s \<and> s \<le> 5)"
        using r(2) by (auto simp: attempt_def dest!: pd_qcut_scores split: if_splits)
      with Inr show ?thesis by (simp add: cs)
    qed
  qed
qed

lemma credit_score_range:
  "1 \<le> calculate_credit_score b d \<and> calculate_credit_score b d \<le> 5"
  by (simp add: calculate_credit_score_def)

lemma profit_score_range:
  "1 \<le> calculate_profit_score p \<and> calculate_profit_score p \<le> 5"
  by (simp add: calculate_profit_score_def)

lemma finish_row_in_range:
  assumes "1 \<le> r \<and> r \<le> 5" "1 \<le> f \<and> f \<le> 5" "1 \<le> mo \<and> mo \<le> 5"
  shows "scores_in_range (finish_row (score_row m r f mo))"
  using assms credit_score_range profit_score_range
  by (simp add: scores_in_range_def finish_row_def score_row_def Let_def score_record.defs)

lemma score_customers_small:
  assumes "df \<noteq> []" "nunique (map (\<lambda>m. of_int (clean_recency (recency m))) df) < 5"
  shows "score_customers df = Inl TypeError"
  using assms by (simp add: score_customers_def create_score_reverse_small)

lemma score_customers_total:
  assumes "5 \<le> nunique (map (\<lambda>m. of_int (clean_recency (recency m))) df)"
  shows "\<exists>scored. score_customers df = Inr scored \<and> length scored = length df \<and>
     (\<forall>row \<in> set scored. scores_in_range row)"
proof -
  from assms have ne: "df \<noteq> []" by (auto simp: nunique_def)
  define n where "n = length df"
  from ne assms create_score_total [of "map (\<lambda>m. of_int (clean_recency (recency m))) df" True]
  obtain rs where rs: "create_score (map (\<lambda>m. of_int (clean_recency (recency m))) df) True = Inr rs"
    "length rs = n" "\<forall>s \<in> set rs. 1 \<le> s \<and> s \<le> 5"
    by (auto simp: n_def)
  from ne create_score_total [of "map (\<lambda>m. of_int (frequency m)) df" False]
  obtain fs where fs: "create_score (map (\<lambda>m. of_int (frequency m)) df) False = Inr fs"
    "length fs = n" "\<forall>s \<in> set fs. 1 \<le> s \<and> s \<le> 5"
    by (auto simp: n_def)
  from ne create_score_total [of "map (\<lambda>m. of_int (monetary_value m)) df" False]
  obtain ms where ms: "create_score (map (\<lambda>m. of_int (monetary_value m)) df) False = Inr ms"
    "length ms = n" "\<forall>s \<in> set ms. 1 \<le> s \<and> s \<le> 5"
    by (auto simp: n_def)
  define rows where "rows =
    map (\<lambda>i. finish_row (score_row (df ! i) (rs ! i) (fs ! i) (ms ! i))) [0..<length df]"
  have eq: "score_customers df = Inr (sort_key (\<lambda>row. - Total_Score row) rows)"
    using ne rs(1) fs(1) ms(1) by (simp add: score_customers_def rows_def)
  have "scores_in_range row" if "row \<in> set rows" for row
  proof -
    from that obtain i where i: "i < n"
      and row: "row = finish_row (score_row (df ! i) (rs ! i) (fs ! i) (ms ! i))"
      by (auto simp: rows_def n_def)
    from i rs(2,3) fs(2,3) ms(2,3)
    have "1 \<le> rs ! i \<and> rs ! i \<le> 5" "1 \<le> fs ! i \<and> fs ! i \<le> 5" "1 \<le> ms ! i \<and> ms ! i \<le> 5"
      by (metis nth_mem)+
    then show ?thesis unfolding row by (rule finish_row_in_range)
  qed
  moreover have "length rows = length df" by (simp add: rows_def)
  ultimately show ?thesis by (simp add: eq)
qed

text \<open>
  Claim C8 (degenerate populations): the scoring of any non-empty population, also of
  three customers only, is to raise nothing and to give sub-scores between 1 and 5.
  The code is evaluated here on a table of three customers: the recency score is the
  reversed one, its series has fewer than five distinct values, and \<open>create_score\<close>
  raises a \<open>TypeError\<close>, which \<open>get_customer_scores\<close> does not catch. This happens for
  every population with fewer than five distinct recency values. With five or more,
  the scoring raises nothing and all five sub-scores of every customer lie between 1
  and 5; the scores that are not reversed (frequency, monetary value) are computed
  without an exception on every non-empty series.
\<close>

theorem small_population_scoring_raises:
  "create_score [3, 8, 5] True = Inl TypeError \<and>
   map sc_customer_code (customer_metrics_query 10 three_customers) = [''1'', ''2'', ''3''] \<and>
   get_customer_scores (Some three_customers) 10 = Inl TypeError \<and>
   (df \<noteq> [] \<and> nunique (map (\<lambda>m. of_int (clean_recency (recency m))) df) < 5 \<longrightarrow>
      score_customers df = Inl TypeError) \<and>
   (5 \<le> nunique (map (\<lambda>m. of_int (clean_recency (recency m))) df) \<longrightarrow>
      (\<exists>scored. score_customers df = Inr scored \<and> length scored = length df \<and>
         (\<forall>row \<in> set scored. scores_in_range row))) \<and>
   (series \<noteq> [] \<longrightarrow>
      (\<exists>scores. create_score series False = Inr scores \<and> length scores = length series \<and>
         (\<forall>s \<in> set scores. 1 \<le> s \<and> s \<le> 5)))"
proof -
  have a: "create_score [3, 8, 5] True = Inl TypeError"
    by (rule create_score_reverse_small) (simp add: nunique_def)
  have q: "customer_metrics_query 10 three_customers =
     [\<lparr>sc_customer_name = Some ''Shop'', sc_customer_code = ''1'', recency = Some 3,
       frequency = 1, monetary_value = 9000, total_profit = 90, sc_balance = 500,
       days_active = Some 0\<rparr>,
      \<lparr>sc_customer_name = Some ''Shop'', sc_customer_code = ''2'', recency = Some 8,
       frequency = 1, monetary_value = 1000, total_profit = 90, sc_balance = 500,
       days_active = Some 0\<rparr>,
      \<lparr>sc_customer_name = Some ''Shop'', sc_customer_code = ''3'', recency = Some 5,
       frequency = 1, monetary_value = 1000, total_profit = 90, sc_balance = 500,
       days_active = Some 0\<rparr>]"
    by (simp add: query_defs customer_line_def three_customers_def)
  have b: "map sc_customer_code (customer_metrics_query 10 three_customers) = [''1'', ''2'', ''3'']"
    by (simp add: q)
  have c: "get_customer_scores (Some three_customers) 10 = Inl TypeError"
    by (simp add: get_customer_scores_def q score_customers_small nunique_def clean_recency_def)
  from a b c score_customers_small [of df] score_customers_total [of df]
    create_score_total [of series False]
  show ?thesis by blast
qed

theorem small_population_scoring_raises_witness:
  "score_customers population3 = Inl TypeError \<and>
   (\<exists>scores. create_score [10, 20, 30] False = Inr scores \<and> length scores = 3)"
proof -
  have ne: "[10, 20, 30 :: rat] \<noteq> []" by simp
  have small: "population3 \<noteq> [] \<and>
      nunique (map (\<lambda>m. of_int (clean_recency (recency m))) population3) < 5"
    by (simp add: population3_def nunique_def clean_recency_def)
  from small_population_scoring_raises [of population3 "[10, 20, 30]"] small
  have "score_customers population3 = Inl TypeError" by blast
  moreover from small_population_scoring_raises [of population3 "[10, 20, 30]"] ne
  obtain scores where "create_score [10, 20, 30] False = Inr scores"
    "length scores = length [10, 20, 30 :: rat]"
    by blast
  ultimately show ?thesis by auto
qed

section \<open>Segment priority\<close>

text \<open>
  Claim C9 (segment priority). The rules of \<open>assign_segment\<close> are tried in order and the
  first match wins: every row with credit sub-score 1 and a balance above 50000 (for
  instance 60000) is labelled "High Risk", whatever its composite score is, hence
  also when the composite score is 85 or more, the band of "Champions".
\<close>

theorem assign_segment_high_risk_first:
  "C_Score row = 1 \<Longrightarrow> sc_balance row > 50000 \<Longrightarrow>
     assign_segment row = High_Risk \<and> segment_label (assign_segment row) = ''High Risk''"
  by (simp add: assign_segment_def)

theorem assign_segment_high_risk_first_witness:
  "assign_segment
     \<lparr>sc_customer_name = Some ''Shop'', sc_customer_code = ''7'', recency = Some 1,
      frequency = 9, monetary_value = 100000, total_profit = 12000, sc_balance = 60000,
      days_active = Some 7, dso = 999, profit_margin_pct = 12,
      R_Score = 5, F_Score = 5, M_Score = 5, C_Score = 1, P_Score = 5,
      Total_Score = 90, RFM_Score = 15\<rparr> = High_Risk"
  using assign_segment_high_risk_first
    [of "\<lparr>sc_customer_name = Some ''Shop'', sc_customer_code = ''7'', recency = Some 1,
      frequency = 9, monetary_value = 100000, total_profit = 12000, sc_balance = 60000,
      days_active = Some 7, dso = 999, profit_margin_pct = 12,
      R_Score = 5, F_Score = 5, M_Score = 5, C_Score = 1, P_Score = 5,
      Total_Score = 90, RFM_Score = 15\<rparr>"]
  by simp


section \<open>Lines without a delivery date\<close>

lemma dated_idem: "dated (dated sales_data) = dated sales_data"
  by (simp add: dated_def)

lemma query_ignores_undated:
  "customer_metrics_query now (dated sales_data) = customer_metrics_query now sales_data"
  by (simp add: customer_metrics_query_def joined_rows_def invoice_level_def product_aggregates_def
      dated_idem)

lemma metrics_of_group_code:
  "m \<in> set (metrics_of_group now key g p) \<Longrightarrow> sc_customer_code m = snd key"
  by (auto simp: metrics_of_group_def Let_def split: option.splits if_splits)

lemma query_codes_dated:
  assumes "m \<in> set (customer_metrics_query now sales_data)"
  shows "\<exists>r \<in> set sales_data. customer_code r = sc_customer_code m \<and> delivery_date r \<noteq> None"
proof -
  from assms have "\<exists>key \<in> set (map group_key (joined_rows sales_data)).
      m \<in> set (metrics_of_group now key
                (map fst [ip \<leftarrow> joined_rows sales_data. group_key ip = key])
                (snd (hd [ip \<leftarrow> joined_rows sales_data. group_key ip = key])))"
    by (simp add: customer_metrics_query_def Let_def)
  then obtain key where key: "key \<in> set (map group_key (joined_rows sales_data))"
    and m: "m \<in> set (metrics_of_group now key
                (map fst [ip \<leftarrow> joined_rows sales_data. group_key ip = key])
                (snd (hd [ip \<leftarrow> joined_rows sales_data. group_key ip = key])))"
    by blast
  from m have c: "sc_customer_code m = snd key" by (rule metrics_of_group_code)
  from key obtain i p where "(i, p) \<in> set (joined_rows sales_data)" "il_customer_code i = snd key"
    by (auto simp: group_key_def)
  then have "i \<in> set (invoice_level sales_data)" by (auto simp: joined_rows_def)
  then obtain r where "r \<in> set (dated sales_data)" "il_customer_code i = customer_code r"
    by (auto simp: invoice_level_def)
  with \<open>il_customer_code i = snd key\<close> c show ?thesis by (auto simp: dated_def)
qed

lemma finish_row_code: "sc_customer_code (finish_row (score_row m r f mo)) = sc_customer_code m"
  by (simp add: finish_row_def score_row_def Let_def score_record.defs)

lemma score_customers_codes:
  assumes "score_customers df = Inr rows" "row \<in> set rows"
  shows "\<exists>m \<in> set df. sc_customer_code m = sc_customer_code row"
proof (cases "df = []")
  case True
  with assms show ?thesis by (simp add: score_customers_def)
next
  case False
  with assms(1) obtain rs fs ms where
    "rows = sort_key (\<lambda>row. - Total_Score row)
         (map (\<lambda>i. finish_row (score_row (df ! i) (rs ! i) (fs ! i) (ms ! i))) [0..<length df])"
    by (auto simp: score_customers_def split: sum.splits)
  with assms(2) obtain i where "i < length df"
    "row = finish_row (score_row (df ! i) (rs ! i) (fs ! i) (ms ! i))"
    by auto
  then show ?thesis using finish_row_code nth_mem by metis
qed

text \<open>
  Claim C10. The scoring engine ignores every line of \<open>sales_data\<close> whose delivery
  date is null: the query result, and with it every score, is the same as on the
  table without these lines, so they contribute nothing to recency, frequency,
  monetary value, profit or the active span. A customer all of whose lines lack a
  delivery date has no row in the query result and no score record, whatever the
  amounts of the lines are.
\<close>

theorem scoring_ignores_undated_lines:
  "customer_metrics_query now sales_data = customer_metrics_query now (dated sales_data) \<and>
   get_customer_scores (Some sales_data) now = get_customer_scores (Some (dated sales_data)) now \<and>
   ((\<forall>r \<in> set sales_data. customer_code r = c \<longrightarrow> delivery_date r = None) \<longrightarrow>
      c \<notin> set (map sc_customer_code (customer_metrics_query now sales_data)) \<and>
      (\<forall>rows. get_customer_scores (Some sales_data) now = Inr rows \<longrightarrow>
         c \<notin> set (map sc_customer_code rows)))"
proof -
  have a: "customer_metrics_query now sales_data = customer_metrics_query now (dated sales_data)"
    by (simp add: query_ignores_undated)
  then have b: "get_customer_scores (Some sales_data) now = get_customer_scores (Some (dated sales_data)) now"
    by (simp add: get_customer_scores_def)
  have c: "c \<notin> set (map sc_customer_code (customer_metrics_query now sales_data))"
    if "\<forall>r \<in> set sales_data. customer_code r = c \<longrightarrow> delivery_date r = None"
    using that query_codes_dated [of _ now sales_data] by fastforce
  have d: "c \<notin> set (map sc_customer_code rows)"
    if "\<forall>r \<in> set sales_data. customer_code r = c \<longrightarrow> delivery_date r = None"
      "get_customer_scores (Some sales_data) now = Inr rows" for rows
  proof
    assume "c \<in> set (map sc_customer_code rows)"
    then obtain row where "row \<in> set rows" "sc_customer_code row = c" by auto
    with that(2) score_customers_codes [of "customer_metrics_query now sales_data" rows row]
    have "c \<in> set (map sc_customer_code (customer_metrics_query now sales_data))"
      by (force simp: get_customer_scores_def)
    with c [OF that(1)] show False by simp
  qed
  from a b c d show ?thesis by blast
qed

theorem scoring_ignores_undated_lines_witness:
  "map sc_customer_code (customer_metrics_query 10 [invoice_line 1 ''P1'', undated_line]) = [''7''] \<and>
   customer_metrics_query 10 [invoice_line 1 ''P1'', undated_line]
     = customer_metrics_query 10 [invoice_line 1 ''P1''] \<and>
   ''8'' \<notin> set (map sc_customer_code (customer_metrics_query 10 [invoice_line 1 ''P1'', undated_line]))"
  using scoring_ignores_undated_lines [of 10 "[invoice_line 1 ''P1'', undated_line]" "''8''"]
  by (simp add: query_defs invoice_line_def undated_line_def)

end
